theory Spec2Isabelle
  imports Complex_Main "HOL-Library.AList"
begin

section \<open>The instance generator of composer-common\<close>

text \<open>
  A shallow embedding of \<^verbatim>\<open>packages/composer-common/lib/serializer/instancegenerator.js\<close>:
  the visitor that fills the unset properties of a resource with generated sample data.
  The collaborators the generator only calls (model manager, introspector, factory,
  value generator, \<^verbatim>\<open>Math.random\<close>) are parameters of the model.
\<close>

subsection \<open>Values\<close>

text \<open>A relationship: namespace, type and identifier, and nothing else.\<close>

datatype relationship = Relationship string string string

text \<open>
  JavaScript values as far as the generator meets them. A concept carries namespace and
  type, a resource also its identifier; both carry their own properties in insertion
  order. Reading a property that was never set gives \<open>Undefined\<close>.
\<close>

datatype jsvalue =
    Undefined
  | Null
  | Str string
  | Num real
  | Bool bool
  | DateTime int
  | Array "jsvalue list"
  | Obj inst
  | Rel relationship
and inst =
    Concept string string "(string \<times> jsvalue) list"
  | Resource string string string "(string \<times> jsvalue) list"

fun ownProperties :: "inst \<Rightarrow> (string \<times> jsvalue) list" where
  "ownProperties (Concept ns ty ps) = ps"
| "ownProperties (Resource ns ty ident ps) = ps"

text \<open>\<^verbatim>\<open>obj[name]\<close> as an expression.\<close>

definition getProp :: "inst \<Rightarrow> string \<Rightarrow> jsvalue" where
  "getProp obj n = (case map_of (ownProperties obj) n of None \<Rightarrow> Undefined | Some v \<Rightarrow> v)"

text \<open>\<^verbatim>\<open>obj[name] = v\<close>: an existing property keeps its place, a new one goes last.\<close>

fun setProp :: "inst \<Rightarrow> string \<Rightarrow> jsvalue \<Rightarrow> inst" where
  "setProp (Concept ns ty ps) n v = Concept ns ty (AList.update n v ps)"
| "setProp (Resource ns ty ident ps) n v = Resource ns ty ident (AList.update n v ps)"

text \<open>
  Modelled from the spec: \<^verbatim>\<open>Util.isNull\<close> (\<^verbatim>\<open>lib/util.js\<close> is not among the sources).
  A property counts as absent when it is \<^verbatim>\<open>null\<close> or unset.
\<close>

definition isNull :: "jsvalue \<Rightarrow> bool" where
  "isNull v = (v = Undefined \<or> v = Null)"

subsection \<open>The schema\<close>

text \<open>
  The introspection classes are not among the sources; a declaration is the data its
  getters return. A property is a field or a relationship declaration, with its name,
  the fully-qualified name of its type and its array flag. \<open>getNamespace\<close> of a class
  declaration stands for \<^verbatim>\<open>getModelFile().getNamespace()\<close>; supertype and identifier
  field name may be \<^verbatim>\<open>null\<close>.
\<close>

datatype property =
    Field (getPropertyName: string) (getFullyQualifiedTypeName: string) (isArray: bool)
  | RelationshipDeclaration (getPropertyName: string) (getFullyQualifiedTypeName: string)
      (isArray: bool)

record classDeclaration =
  getNamespace :: string
  getName :: string
  getFullyQualifiedName :: string
  getSuperType :: "string option"
  isAbstract :: bool
  isConcept :: bool
  getIdentifierFieldName :: "string option"
  getProperties :: "property list"

datatype enumValueDeclaration = EnumValueDeclaration (getEnumValueName: string)

text \<open>
  What \<^verbatim>\<open>modelManager.getType\<close> answers. An enum declaration is a class declaration
  too (it answers the class getters), with the enum values as its own properties.
\<close>

datatype schemaType =
    ClassDecl classDeclaration
  | EnumDecl classDeclaration "enumValueDeclaration list"

fun classOf :: "schemaType \<Rightarrow> classDeclaration" where
  "classOf (ClassDecl cd) = cd"
| "classOf (EnumDecl cd vs) = cd"

subsection \<open>Errors and results\<close>

datatype error =
    TypeNotFound string
  | NoConcreteClass string
  | TypeError
  | Unrecognised string
  | FactoryError string

text \<open>
  A call returns a value, throws, or has not returned within the fuel it was given
  (one unit of fuel per nested class declaration visited).
\<close>

datatype 'a result = Return 'a | Throw error | OutOfFuel

subsection \<open>Collaborators\<close>

text \<open>
  The model manager, with the list of class declarations the introspector makes of it,
  and the factory. Their calls may throw.
\<close>

record modelManager =
  getType :: "string \<Rightarrow> error + schemaType"
  getClassDeclarations :: "classDeclaration list"

record factory =
  newConcept :: "string \<Rightarrow> string \<Rightarrow> error + inst"
  newResource :: "string \<Rightarrow> string \<Rightarrow> string \<Rightarrow> error + inst"
  newRelationship :: "string \<Rightarrow> string \<Rightarrow> string \<Rightarrow> error + relationship"

text \<open>
  A value generator need not be deterministic: each method takes the number of draws
  made so far in the call.
\<close>

record valueGenerator =
  getDateTime :: "nat \<Rightarrow> jsvalue"
  getInteger :: "nat \<Rightarrow> jsvalue"
  getLong :: "nat \<Rightarrow> jsvalue"
  getDouble :: "nat \<Rightarrow> jsvalue"
  getBoolean :: "nat \<Rightarrow> jsvalue"
  getString :: "nat \<Rightarrow> jsvalue"
  getEnum :: "nat \<Rightarrow> enumValueDeclaration list \<Rightarrow> enumValueDeclaration"

text \<open>
  The \<^verbatim>\<open>parameters\<close> object without its stack, together with the two globals the
  generator reaches for: \<^verbatim>\<open>ValueGeneratorFactory.sample()\<close> and \<^verbatim>\<open>Math.random\<close>
  (the n-th draw, a number in [0, 1)).
\<close>

record parameters =
  modelManager :: modelManager
  factory :: factory
  valueGenerator :: "valueGenerator option"
  sample :: valueGenerator
  mathRandom :: "nat \<Rightarrow> real"

text \<open>
  What a call changes: \<^verbatim>\<open>parameters.stack\<close> (top of the stack first) and the number
  of draws made.
\<close>

record state =
  stack :: "inst list"
  tick :: nat

definition draw :: "state \<Rightarrow> state" where
  "draw st = st\<lparr>tick := Suc (tick st)\<rparr>"

definition push :: "inst \<Rightarrow> state \<Rightarrow> state" where
  "push obj st = st\<lparr>stack := obj # stack st\<rparr>"

subsection \<open>Identifiers\<close>

text \<open>
  Modelled from the spec: \<^verbatim>\<open>ModelUtil.isPrimitiveType\<close> (\<^verbatim>\<open>lib/modelutil.js\<close> is
  not among the sources). The primitive kinds are string, integer, long, double, boolean
  and date-time.
\<close>

definition isPrimitiveType :: "string \<Rightarrow> bool" where
  "isPrimitiveType t =
     (t \<in> set [''Boolean'', ''String'', ''DateTime'', ''Double'', ''Integer'', ''Long''])"

text \<open>
  Numbers are doubles. A double is taken as the real number it stands for, and an
  operation on doubles gives the exact result rounded to the nearest double, a tie going
  to the one with the even significand. \<open>binade x\<close> is the exponent of \<open>x\<close>,
  \<open>quantum x\<close> the distance between neighbouring doubles there: 52 fraction bits,
  exponents from -1022 on, the subnormal numbers and zero below. Overflow is left out:
  the generator's only product stays below 10000.
\<close>

definition roundHalfEven :: "real \<Rightarrow> int" where
  "roundHalfEven y =
     (let f = \<lfloor>y\<rfloor>; d = y - of_int f in
      if d < 1 / 2 then f else if 1 / 2 < d then f + 1 else if even f then f else f + 1)"

definition binade :: "real \<Rightarrow> int" where
  "binade x = (if x = 0 then - 1022 else \<lfloor>log 2 \<bar>x\<bar>\<rfloor>)"

definition quantum :: "real \<Rightarrow> real" where
  "quantum x =
     (let e = max (binade x) (- 1022) in
      if 52 \<le> e then 2 ^ nat (e - 52) else 1 / 2 ^ nat (52 - e))"

definition roundDouble :: "real \<Rightarrow> real" where
  "roundDouble x = of_int (roundHalfEven (x / quantum x)) * quantum x"

text \<open>The product \<^verbatim>\<open>x * y\<close> of two doubles.\<close>

definition doubleTimes :: "real \<Rightarrow> real \<Rightarrow> real" where
  "doubleTimes x y = roundDouble (x * y)"

text \<open>\<^verbatim>\<open>Math.round\<close>: the nearest integer, a tie going up.\<close>

definition mathRound :: "real \<Rightarrow> int" where
  "mathRound x = \<lfloor>x + 1 / 2\<rfloor>"

definition digitChar :: "nat \<Rightarrow> char" where
  "digitChar d = ''0123456789'' ! (d mod 10)"

fun digits :: "nat \<Rightarrow> string" where
  "digits n = (if n < 10 then [digitChar n] else digits (n div 10) @ [digitChar (n mod 10)])"

declare digits.simps [simp del]

text \<open>\<^verbatim>\<open>toString\<close> of an integral number.\<close>

definition toString :: "int \<Rightarrow> string" where
  "toString i = (if i < 0 then CHR ''-'' # digits (nat (- i)) else digits (nat i))"

text \<open>
  \<^verbatim>\<open>leftPad(str, len, ch)\<close> of the \<^verbatim>\<open>left-pad\<close> package: \<open>ch\<close> is put in front
  until the length is \<open>len\<close>; a longer string is left as it is.
\<close>

definition leftPad :: "string \<Rightarrow> nat \<Rightarrow> char \<Rightarrow> string" where
  "leftPad str len ch = replicate (len - length str) ch @ str"

text \<open>A value inside a template literal: \<^verbatim>\<open>null\<close> prints as the word.\<close>

fun templateText :: "string option \<Rightarrow> string" where
  "templateText None = ''null''"
| "templateText (Some s) = s"

text \<open>
  The three lines that occur in \<^verbatim>\<open>getFieldValue\<close> and twice in
  \<^verbatim>\<open>visitRelationshipDeclaration\<close>:
  \<^verbatim>\<open>idx = Math.round(Math.random() * 9999).toString(); idx = leftPad(idx, 4, '0');
  id = `${identifierFieldName}:${idx}`\<close>, for the draw \<open>r\<close>, a double.
\<close>

definition randomIdx :: "real \<Rightarrow> string" where
  "randomIdx r = leftPad (toString (mathRound (doubleTimes r 9999))) 4 CHR ''0''"

definition randomId :: "string option \<Rightarrow> real \<Rightarrow> string" where
  "randomId identifierFieldName r = templateText identifierFieldName @ '':'' @ randomIdx r"

subsection \<open>Leaf resolution\<close>

text \<open>
  \<^verbatim>\<open>findExtendingLeafType(inputType)\<close>. The model manager is the one the declaration
  came from; \<^verbatim>\<open>Introspector.getClassDeclarations\<close> lists its class declarations.
  \<open>None\<close> is the \<^verbatim>\<open>null\<close> that \<^verbatim>\<open>returnType\<close> starts with.
\<close>

definition findExtendingLeafType ::
  "modelManager \<Rightarrow> classDeclaration \<Rightarrow> error + classDeclaration option" where
  "findExtendingLeafType mm inputType =
     (if isAbstract inputType then
        (let allClassDeclarations = getClassDeclarations mm;
             contenders = filter (\<lambda>classDecl.
                 \<not> isAbstract classDecl \<and> getSuperType classDecl \<noteq> None \<and>
                 getSuperType classDecl = Some (getFullyQualifiedName inputType))
               allClassDeclarations
         in if length contenders > 0 then Inr (Some (hd contenders))
            else Inl (NoConcreteClass (getFullyQualifiedName inputType)))
      else Inr (Some inputType))"

text \<open>
  \<^verbatim>\<open>classDeclaration.isAbstract\<close> as \<^verbatim>\<open>getFieldValue\<close> writes it: the method itself,
  not its result, and a function is truthy.
\<close>

definition isAbstractMethodTruthy :: "classDeclaration \<Rightarrow> bool" where
  "isAbstractMethodTruthy classDecl = True"

subsection \<open>Relationships\<close>

text \<open>The loop of the array branch, \<open>k\<close> rounds to go.\<close>

fun relationshipLoop ::
  "parameters \<Rightarrow> classDeclaration \<Rightarrow> nat \<Rightarrow> jsvalue list \<Rightarrow> state
     \<Rightarrow> (jsvalue \<times> state) result" where
  "relationshipLoop P classDecl 0 res st = Return (Array res, st)"
| "relationshipLoop P classDecl (Suc k) res st =
     (let ident = randomId (getIdentifierFieldName classDecl) (mathRandom P (tick st)) in
      case newRelationship (factory P) (getNamespace classDecl) (getName classDecl) ident of
        Inl e \<Rightarrow> Throw e
      | Inr relationship \<Rightarrow> relationshipLoop P classDecl k (res @ [Rel relationship]) (draw st))"

definition visitRelationshipDeclaration ::
  "parameters \<Rightarrow> property \<Rightarrow> state \<Rightarrow> (jsvalue \<times> state) result" where
  "visitRelationshipDeclaration P relationshipDeclaration st =
     (case getType (modelManager P) (getFullyQualifiedTypeName relationshipDeclaration) of
        Inl e \<Rightarrow> Throw e
      | Inr decl \<Rightarrow>
          (let classDecl = classOf decl in
           if isArray relationshipDeclaration then relationshipLoop P classDecl 3 [] st
           else
             (let ident = randomId (getIdentifierFieldName classDecl) (mathRandom P (tick st)) in
              case newRelationship (factory P) (getNamespace classDecl) (getName classDecl) ident of
                Inl e \<Rightarrow> Throw e
              | Inr relationship \<Rightarrow> Return (Rel relationship, draw st))))"

subsection \<open>The visitor\<close>

definition generatorOf :: "parameters \<Rightarrow> valueGenerator" where
  "generatorOf P = (case valueGenerator P of Some g \<Rightarrow> g | None \<Rightarrow> sample P)"

text \<open>The \<^verbatim>\<open>switch\<close> of \<^verbatim>\<open>getFieldValue\<close> over a primitive type.\<close>

definition primitiveValue :: "valueGenerator \<Rightarrow> string \<Rightarrow> nat \<Rightarrow> jsvalue" where
  "primitiveValue g t n =
     (if t = ''DateTime'' then getDateTime g n
      else if t = ''Integer'' then getInteger g n
      else if t = ''Long'' then getLong g n
      else if t = ''Double'' then getDouble g n
      else if t = ''Boolean'' then getBoolean g n
      else getString g n)"

text \<open>
  \<^verbatim>\<open>visitClassDeclaration\<close>, the loop over its properties (\<open>visitProperties\<close>),
  \<^verbatim>\<open>property.accept(this, parameters)\<close> (\<open>acceptProperty\<close>: the dispatch of
  \<^verbatim>\<open>visit\<close> on a property), \<^verbatim>\<open>visitField\<close>, the loop of its array branch
  (\<open>fieldLoop\<close>, \<open>k\<close> rounds to go) and \<^verbatim>\<open>getFieldValue\<close>. The first argument is
  the fuel: \<^verbatim>\<open>classDeclaration.accept(this, parameters)\<close> in \<^verbatim>\<open>getFieldValue\<close>
  spends one unit.

  \<^verbatim>\<open>pop\<close> on an empty stack gives \<^verbatim>\<open>undefined\<close>, and reading a property of it is a
  \<^verbatim>\<open>TypeError\<close>. The object is changed in place in the source; here the changed object
  is passed on and returned. In \<^verbatim>\<open>getFieldValue\<close> the assignment
  \<^verbatim>\<open>type = newClassDecl.getName()\<close> is left out: \<^verbatim>\<open>type\<close> is not read after it.
\<close>

function (sequential) visitClassDeclaration ::
    "nat \<Rightarrow> parameters \<Rightarrow> classDeclaration \<Rightarrow> state \<Rightarrow> (jsvalue \<times> state) result"
  and visitProperties ::
    "nat \<Rightarrow> parameters \<Rightarrow> property list \<Rightarrow> inst \<Rightarrow> state \<Rightarrow> (inst \<times> state) result"
  and acceptProperty ::
    "nat \<Rightarrow> parameters \<Rightarrow> property \<Rightarrow> state \<Rightarrow> (jsvalue \<times> state) result"
  and visitField ::
    "nat \<Rightarrow> parameters \<Rightarrow> property \<Rightarrow> state \<Rightarrow> (jsvalue \<times> state) result"
  and fieldLoop ::
    "nat \<Rightarrow> parameters \<Rightarrow> property \<Rightarrow> nat \<Rightarrow> jsvalue list \<Rightarrow> state
       \<Rightarrow> (jsvalue \<times> state) result"
  and getFieldValue ::
    "nat \<Rightarrow> parameters \<Rightarrow> property \<Rightarrow> state \<Rightarrow> (jsvalue \<times> state) result"
where
  "visitClassDeclaration fuel P classDecl st =
     (case stack st of
        [] \<Rightarrow> (if getProperties classDecl = [] then Return (Undefined, st) else Throw TypeError)
      | obj # rest \<Rightarrow>
          (case visitProperties fuel P (getProperties classDecl) obj (st\<lparr>stack := rest\<rparr>) of
             Return (obj', st') \<Rightarrow> Return (Obj obj', st')
           | Throw e \<Rightarrow> Throw e
           | OutOfFuel \<Rightarrow> OutOfFuel))"
| "visitProperties fuel P [] obj st = Return (obj, st)"
| "visitProperties fuel P (p # ps) obj st =
     (if isNull (getProp obj (getPropertyName p)) then
        (case acceptProperty fuel P p st of
           Return (v, st') \<Rightarrow> visitProperties fuel P ps (setProp obj (getPropertyName p) v) st'
         | Throw e \<Rightarrow> Throw e
         | OutOfFuel \<Rightarrow> OutOfFuel)
      else visitProperties fuel P ps obj st)"
| "acceptProperty fuel P (RelationshipDeclaration n t a) st =
     visitRelationshipDeclaration P (RelationshipDeclaration n t a) st"
| "acceptProperty fuel P (Field n t a) st = visitField fuel P (Field n t a) st"
| "visitField fuel P field st =
     (if isArray field then fieldLoop fuel P field 3 [] st
      else getFieldValue fuel P field st)"
| "fieldLoop fuel P field 0 res st = Return (Array res, st)"
| "fieldLoop fuel P field (Suc k) res st =
     (case getFieldValue fuel P field st of
        Return (v, st') \<Rightarrow> fieldLoop fuel P field k (res @ [v]) st'
      | Throw e \<Rightarrow> Throw e
      | OutOfFuel \<Rightarrow> OutOfFuel)"
| "getFieldValue fuel P field st =
     (let t = getFullyQualifiedTypeName field; g = generatorOf P in
      if isPrimitiveType t then Return (primitiveValue g t (tick st), draw st)
      else
        (case getType (modelManager P) t of
           Inl e \<Rightarrow> Throw e
         | Inr (EnumDecl enumDecl enumValues) \<Rightarrow>
             Return (Str (getEnumValueName (getEnum g (tick st) enumValues)), draw st)
         | Inr (ClassDecl classDecl0) \<Rightarrow>
             (case (if isAbstractMethodTruthy classDecl0 then
                      (case findExtendingLeafType (modelManager P) classDecl0 of
                         Inl e \<Rightarrow> Inl e
                       | Inr None \<Rightarrow> Inr classDecl0
                       | Inr (Some newClassDecl) \<Rightarrow> Inr newClassDecl)
                    else Inr classDecl0) of
                Inl e \<Rightarrow> Throw e
              | Inr classDecl \<Rightarrow>
                  (if isConcept classDecl then
                     (case newConcept (factory P) (getNamespace classDecl) (getName classDecl) of
                        Inl e \<Rightarrow> Throw e
                      | Inr concept \<Rightarrow>
                          (case fuel of
                             0 \<Rightarrow> OutOfFuel
                           | Suc fuel' \<Rightarrow> visitClassDeclaration fuel' P classDecl (push concept st)))
                   else
                     (let ident = randomId (getIdentifierFieldName classDecl)
                                    (mathRandom P (tick st)) in
                      case newResource (factory P) (getNamespace classDecl) (getName classDecl)
                             ident of
                        Inl e \<Rightarrow> Throw e
                      | Inr resource \<Rightarrow>
                          (case fuel of
                             0 \<Rightarrow> OutOfFuel
                           | Suc fuel' \<Rightarrow>
                               visitClassDeclaration fuel' P classDecl
                                 (push resource (draw st))))))))"
  by pat_completeness auto

termination
  apply (relation "inv_image (less_than <*lex*> less_than) (\<lambda>x. case x of
        Inl (Inl (fuel, P, classDecl, st)) \<Rightarrow> (fuel, 8 + length (getProperties classDecl))
      | Inl (Inr (Inl (fuel, P, ps, obj, st))) \<Rightarrow> (fuel, 7 + length ps)
      | Inl (Inr (Inr (fuel, P, p, st))) \<Rightarrow> (fuel, 6)
      | Inr (Inl (fuel, P, field, st)) \<Rightarrow> (fuel, 5)
      | Inr (Inr (Inl (fuel, P, field, k, res, st))) \<Rightarrow> (fuel, 1 + k)
      | Inr (Inr (Inr (fuel, P, field, st))) \<Rightarrow> (fuel, 0))")
  apply (intro wf_inv_image wf_lex_prod wf_less_than)
  apply simp_all
  done

declare visitClassDeclaration.simps [simp del]
declare visitField.simps [simp del]
declare getFieldValue.simps [simp del]

text \<open>
  \<^verbatim>\<open>visit(thing, parameters)\<close>: a class declaration first, then a relationship
  declaration, then a field; anything else is refused with its JSON text.
\<close>

datatype thing =
    ClassDeclarationThing classDeclaration
  | PropertyThing property
  | OtherThing string

fun visit :: "nat \<Rightarrow> parameters \<Rightarrow> thing \<Rightarrow> state \<Rightarrow> (jsvalue \<times> state) result" where
  "visit fuel P (ClassDeclarationThing classDecl) st = visitClassDeclaration fuel P classDecl st"
| "visit fuel P (PropertyThing (RelationshipDeclaration n t a)) st =
     visitRelationshipDeclaration P (RelationshipDeclaration n t a) st"
| "visit fuel P (PropertyThing (Field n t a)) st = visitField fuel P (Field n t a) st"
| "visit fuel P (OtherThing json) st = Throw (Unrecognised json)"

subsection \<open>Relationship pointers\<close>




subsection \<open>Four digits\<close>

text \<open>
  The decimal representation of a number from 0 to 9999, padded with zeros on the left
  to exactly four digits.
\<close>

definition fourDigits :: "nat \<Rightarrow> string" where
  "fourDigits k =
     map (\<lambda>d. ''0123456789'' ! d) [k div 1000, k div 100 mod 10, k div 10 mod 10, k mod 10]"

subsection \<open>A sample schema\<close>

text \<open>
  A small business network in the namespace \<open>org.acme\<close>, used to run the generator:
  assets \<open>A\<close> and \<open>B\<close> that point at each other through relationships, an abstract
  hierarchy \<open>Top > Base > {Mid > Leaf, First, Second}\<close> in which \<open>Top\<close>, \<open>Base\<close>
  and \<open>Mid\<close> are abstract, a concept \<open>Address\<close>, an enum \<open>Colour\<close>, an asset
  \<open>Holder\<close> with one field of each kind, \<open>Pair\<close> with relationships only, \<open>Stray\<close>
  with a field of type \<open>Top\<close> and \<open>Palette\<close> with an array of colours. The factory
  makes empty instances, the value generator and the random source are fixed functions
  of the number of draws.
\<close>

definition acmeClass ::
  "string \<Rightarrow> string option \<Rightarrow> bool \<Rightarrow> bool \<Rightarrow> string option \<Rightarrow> property list
     \<Rightarrow> classDeclaration" where
  "acmeClass n super abstract concept idField props =
     \<lparr>getNamespace = ''org.acme'', getName = n, getFullyQualifiedName = ''org.acme.'' @ n,
      getSuperType = super, isAbstract = abstract, isConcept = concept,
      getIdentifierFieldName = idField, getProperties = props\<rparr>"

definition acmeA :: classDeclaration where
  "acmeA = acmeClass ''A'' None False False (Some ''aId'')
     [Field ''aId'' ''String'' False, RelationshipDeclaration ''toB'' ''org.acme.B'' False]"

definition acmeB :: classDeclaration where
  "acmeB = acmeClass ''B'' None False False (Some ''bId'')
     [Field ''bId'' ''String'' False, RelationshipDeclaration ''toAs'' ''org.acme.A'' True]"

definition acmePair :: classDeclaration where
  "acmePair = acmeClass ''Pair'' None False False (Some ''pairId'')
     [RelationshipDeclaration ''left'' ''org.acme.Pair'' False,
      RelationshipDeclaration ''rest'' ''org.acme.B'' True]"

definition acmeTop :: classDeclaration where
  "acmeTop = acmeClass ''Top'' None True False (Some ''id'') [Field ''id'' ''String'' False]"

definition acmeBase :: classDeclaration where
  "acmeBase = acmeClass ''Base'' (Some ''org.acme.Top'') True False (Some ''id'')
     [Field ''id'' ''String'' False]"

definition acmeMid :: classDeclaration where
  "acmeMid = acmeClass ''Mid'' (Some ''org.acme.Base'') True False (Some ''id'')
     [Field ''id'' ''String'' False]"

definition acmeLeaf :: classDeclaration where
  "acmeLeaf = acmeClass ''Leaf'' (Some ''org.acme.Mid'') False False (Some ''id'')
     [Field ''id'' ''String'' False, Field ''depth'' ''Integer'' False]"

definition acmeFirst :: classDeclaration where
  "acmeFirst = acmeClass ''First'' (Some ''org.acme.Base'') False False (Some ''id'')
     [Field ''id'' ''String'' False, Field ''weight'' ''Double'' False]"

definition acmeSecond :: classDeclaration where
  "acmeSecond = acmeClass ''Second'' (Some ''org.acme.Base'') False False (Some ''id'')
     [Field ''id'' ''String'' False]"

definition acmeAddress :: classDeclaration where
  "acmeAddress = acmeClass ''Address'' None False True None
     [Field ''street'' ''String'' False, Field ''number'' ''Integer'' False]"

definition acmeColour :: classDeclaration where
  "acmeColour = acmeClass ''Colour'' None False False None []"

definition acmeColours :: "enumValueDeclaration list" where
  "acmeColours =
     [EnumValueDeclaration ''RED'', EnumValueDeclaration ''GREEN'', EnumValueDeclaration ''BLUE'']"

definition acmeHolder :: classDeclaration where
  "acmeHolder = acmeClass ''Holder'' None False False (Some ''holderId'')
     [Field ''holderId'' ''String'' False,
      Field ''home'' ''org.acme.Address'' False,
      Field ''colour'' ''org.acme.Colour'' False,
      Field ''scores'' ''Long'' True,
      Field ''pet'' ''org.acme.Base'' False]"

definition acmeStray :: classDeclaration where
  "acmeStray = acmeClass ''Stray'' None False False (Some ''strayId'')
     [Field ''strayId'' ''String'' False, Field ''kind'' ''org.acme.Top'' False,
      Field ''after'' ''String'' False]"

definition acmePalette :: classDeclaration where
  "acmePalette = acmeClass ''Palette'' None False False (Some ''paletteId'')
     [Field ''colours'' ''org.acme.Colour'' True]"

definition acmeDeclarations :: "schemaType list" where
  "acmeDeclarations =
     [ClassDecl acmeA, ClassDecl acmeB, ClassDecl acmePair, ClassDecl acmeLeaf,
      ClassDecl acmeTop, ClassDecl acmeMid, ClassDecl acmeBase, ClassDecl acmeFirst,
      ClassDecl acmeSecond, ClassDecl acmeAddress, EnumDecl acmeColour acmeColours,
      ClassDecl acmeHolder, ClassDecl acmeStray, ClassDecl acmePalette]"

definition acmeModelManager :: modelManager where
  "acmeModelManager =
     \<lparr>getType = (\<lambda>fqn.
        case List.find (\<lambda>d. getFullyQualifiedName (classOf d) = fqn) acmeDeclarations of
          None \<Rightarrow> Inl (TypeNotFound fqn)
        | Some d \<Rightarrow> Inr d),
      getClassDeclarations = map classOf acmeDeclarations\<rparr>"

definition acmeFactory :: factory where
  "acmeFactory =
     \<lparr>newConcept = (\<lambda>ns ty. Inr (Concept ns ty [])),
      newResource = (\<lambda>ns ty ident. Inr (Resource ns ty ident [])),
      newRelationship = (\<lambda>ns ty ident. Inr (Relationship ns ty ident))\<rparr>"

definition acmeGenerator :: valueGenerator where
  "acmeGenerator =
     \<lparr>getDateTime = (\<lambda>n. DateTime (int n)),
      getInteger = (\<lambda>n. Num (of_nat n)),
      getLong = (\<lambda>n. Num (of_nat (100 + n))),
      getDouble = (\<lambda>n. Num (of_nat n / 2)),
      getBoolean = (\<lambda>n. Bool (even n)),
      getString = (\<lambda>n. Str ''text''),
      getEnum = (\<lambda>n vs. case vs of [] \<Rightarrow> EnumValueDeclaration [] | v # _ \<Rightarrow> vs ! (n mod length vs))\<rparr>"

definition acmeRandom :: "nat \<Rightarrow> real" where
  "acmeRandom n = of_nat ((42 + 689 * n) mod 9999) / 9999"

definition acmeParameters :: parameters where
  "acmeParameters =
     \<lparr>modelManager = acmeModelManager, factory = acmeFactory, valueGenerator = None,
      sample = acmeGenerator, mathRandom = acmeRandom\<rparr>"

text \<open>
  The same with a random source that always draws the double \<open>807125765801373 / 2^61\<close>.
  Its exact product with 9999 lies just below 3.5; the product of doubles is 3.5.
\<close>

definition acmeNearTie :: parameters where
  "acmeNearTie = acmeParameters\<lparr>mathRandom := (\<lambda>n. 807125765801373 / 2 ^ 61)\<rparr>"

section \<open>Properties of the generator\<close>

subsection \<open>Rounding to a double\<close>

lemma roundHalfEven_of_int: "roundHalfEven (of_int m) = m"
  by (simp add: roundHalfEven_def)

lemma roundHalfEven_le: "y \<le> of_int n \<Longrightarrow> roundHalfEven y \<le> n"
  unfolding roundHalfEven_def Let_def by (auto; linarith)

lemma roundHalfEven_ge: "of_int m \<le> y \<Longrightarrow> m \<le> roundHalfEven y"
  unfolding roundHalfEven_def Let_def by (auto; linarith)

lemma binade_eq:
  assumes "2 ^ n \<le> \<bar>x\<bar>" and "\<bar>x\<bar> < 2 ^ Suc n"
  shows "binade x = int n"
proof -
  from assms(1) have pos: "0 < \<bar>x\<bar>"
    by (meson less_le_trans zero_less_numeral zero_less_power)
  have p1: "2 powr real_of_int (int n) = (2::real) ^ n"
    using powr_realpow [of "2::real" n] by simp
  have "real_of_int (int n + 1) = real (Suc n)" by simp
  then have p2: "2 powr real_of_int (int n + 1) = (2::real) ^ Suc n"
    using powr_realpow [of "2::real" "Suc n"] by (simp add: add.commute)
  from pos have "\<lfloor>log 2 \<bar>x\<bar>\<rfloor> = int n \<longleftrightarrow>
      2 powr real_of_int (int n) \<le> \<bar>x\<bar> \<and> \<bar>x\<bar> < 2 powr real_of_int (int n + 1)"
    by (intro floor_log_eq_powr_iff) simp_all
  with assms pos show ?thesis
    unfolding binade_def p1 p2 by simp
qed

lemma binade_less:
  assumes "\<bar>x\<bar> < 2 ^ n"
  shows "binade x < int n"
proof (cases "x = 0")
  case True
  then show ?thesis by (simp add: binade_def)
next
  case False
  then have pos: "0 < \<bar>x\<bar>" by simp
  from assms have "\<bar>x\<bar> < 2 powr real n" by (simp add: powr_realpow)
  with pos have "log 2 \<bar>x\<bar> < real n"
    by (simp add: log_less_iff)
  with False show ?thesis
    unfolding binade_def by (simp add: floor_less_iff)
qed

lemma quantum_small:
  assumes "\<bar>x\<bar> < 2 ^ 52"
  shows "\<exists>n. quantum x = 1 / 2 ^ n"
proof -
  from binade_less [OF assms] have "max (binade x) (- 1022) < 52" by simp
  then show ?thesis
    unfolding quantum_def Let_def by auto
qed

lemma roundDouble_between:
  assumes q: "\<bar>x\<bar> < 2 ^ 52" and lo: "of_int a \<le> x" and hi: "x \<le> of_int b"
  shows "of_int a \<le> roundDouble x \<and> roundDouble x \<le> of_int b"
proof -
  from quantum_small [OF q] obtain n where n: "quantum x = 1 / 2 ^ n" by blast
  have "of_int (a * 2 ^ n) \<le> x * 2 ^ n" using lo by simp
  then have l: "a * 2 ^ n \<le> roundHalfEven (x * 2 ^ n)" by (rule roundHalfEven_ge)
  have "x * 2 ^ n \<le> of_int (b * 2 ^ n)" using hi by simp
  then have h: "roundHalfEven (x * 2 ^ n) \<le> b * 2 ^ n" by (rule roundHalfEven_le)
  have r: "roundDouble x = of_int (roundHalfEven (x * 2 ^ n)) / 2 ^ n"
    by (simp add: roundDouble_def n)
  from l have "of_int (a * 2 ^ n) \<le> (of_int (roundHalfEven (x * 2 ^ n)) :: real)"
    by (simp only: of_int_le_iff)
  then have l': "of_int a \<le> roundDouble x"
    unfolding r by (simp add: le_divide_eq)
  from h have "(of_int (roundHalfEven (x * 2 ^ n)) :: real) \<le> of_int (b * 2 ^ n)"
    by (simp only: of_int_le_iff)
  then have h': "roundDouble x \<le> of_int b"
    unfolding r by (simp add: divide_le_eq)
  from l' h' show ?thesis ..
qed

lemma roundDouble_of_int:
  assumes "\<bar>m\<bar> < 2 ^ 52"
  shows "roundDouble (of_int m) = of_int m"
proof -
  from assms have "\<bar>real_of_int m\<bar> < 2 ^ 52"
    by (metis of_int_abs of_int_less_numeral_power_cancel_iff)
  from roundDouble_between [OF this, of m m] show ?thesis by simp
qed

lemma roundDouble_numeral:
  "(numeral k :: int) < 4503599627370496 \<Longrightarrow> roundDouble (numeral k) = numeral k"
  using roundDouble_of_int [of "numeral k"] by simp

lemma roundDouble_range:
  assumes "0 \<le> x" and "x \<le> 9999"
  shows "0 \<le> roundDouble x \<and> roundDouble x \<le> 9999"
proof -
  from assms have "\<bar>x\<bar> < 2 ^ 52" by simp
  from roundDouble_between [OF this, of 0 9999] assms show ?thesis by simp
qed

lemma doubleTimes_range:
  assumes "0 \<le> r" and "r < 1"
  shows "0 \<le> doubleTimes r 9999 \<and> doubleTimes r 9999 \<le> 9999"
  unfolding doubleTimes_def using assms by (intro roundDouble_range) simp_all

lemma doubleTimes_near_tie:
  "doubleTimes (807125765801373 / 2305843009213693952) 9999 = 7 / 2"
proof -
  let ?x = "8070450532247928627 / 2305843009213693952 :: real"
  have x: "807125765801373 / 2305843009213693952 * 9999 = ?x" by simp
  have b: "binade ?x = int 1"
    by (rule binade_eq) simp_all
  have q: "quantum ?x = 1 / 2 ^ 51"
    by (simp add: quantum_def b)
  have r: "roundHalfEven (?x / (1 / 2 ^ 51)) = 7881299347898368"
    by (simp add: roundHalfEven_def)
  show ?thesis
    unfolding doubleTimes_def x roundDouble_def q r by simp
qed

subsection \<open>Evaluation\<close>

lemma digits_small: "n < 10 \<Longrightarrow> digits n = [digitChar n]"
  by (simp add: digits.simps)

lemma digits_large: "\<not> n < 10 \<Longrightarrow> digits n = digits (n div 10) @ [digitChar (n mod 10)]"
  by (subst digits.simps) simp

lemma fieldLoop_3:
  "fieldLoop fuel P field 3 res st = fieldLoop fuel P field (Suc (Suc (Suc 0))) res st"
  by (simp add: numeral_3_eq_3)

lemma relationshipLoop_3:
  "relationshipLoop P cd 3 res st = relationshipLoop P cd (Suc (Suc (Suc 0))) res st"
  by (simp add: numeral_3_eq_3)

lemma replicate_upto_4:
  "replicate 2 c = [c, c]" "replicate 3 c = [c, c, c]" "replicate 4 c = [c, c, c, c]"
  by (simp_all add: numeral_eq_Suc)

lemmas idx_eval = randomId_def randomIdx_def doubleTimes_def roundDouble_numeral mathRound_def
  toString_def leftPad_def digitChar_def digits_small digits_large replicate_upto_4

lemmas acme_eval = acmeClass_def acmeA_def acmeB_def acmePair_def acmeTop_def acmeBase_def
  acmeMid_def acmeLeaf_def acmeFirst_def acmeSecond_def acmeAddress_def acmeColour_def
  acmeColours_def acmeHolder_def acmeStray_def acmePalette_def acmeDeclarations_def
  acmeModelManager_def acmeFactory_def acmeGenerator_def acmeRandom_def acmeParameters_def
  acmeNearTie_def

lemmas gen_eval = visitClassDeclaration.simps visitField.simps getFieldValue.simps
  visitRelationshipDeclaration_def fieldLoop_3 relationshipLoop_3 draw_def push_def
  getProp_def isNull_def generatorOf_def primitiveValue_def isPrimitiveType_def
  isAbstractMethodTruthy_def findExtendingLeafType_def

subsection \<open>Leaf resolution\<close>

lemma filter_find_hd:
  "filter Q xs \<noteq> [] \<Longrightarrow> List.find Q xs = Some (hd (filter Q xs))"
  by (induction xs) auto

lemma filter_find_none: "filter Q xs = [] \<Longrightarrow> List.find Q xs = None"
  by (induction xs) (auto split: if_splits)

lemma findExtendingLeafType_find:
  assumes a: "isAbstract t"
  shows "findExtendingLeafType mm t =
     (case List.find (\<lambda>c. \<not> isAbstract c \<and> getSuperType c = Some (getFullyQualifiedName t))
             (getClassDeclarations mm) of
        None \<Rightarrow> Inl (NoConcreteClass (getFullyQualifiedName t))
      | Some c \<Rightarrow> Inr (Some c))"
proof -
  let ?Q = "\<lambda>c. \<not> isAbstract c \<and> getSuperType c = Some (getFullyQualifiedName t)"
  have filt: "filter (\<lambda>classDecl. \<not> isAbstract classDecl \<and> getSuperType classDecl \<noteq> None \<and>
                 getSuperType classDecl = Some (getFullyQualifiedName t)) (getClassDeclarations mm)
              = filter ?Q (getClassDeclarations mm)"
    by (rule filter_cong) auto
  show ?thesis
  proof (cases "filter ?Q (getClassDeclarations mm) = []")
    case True
    with a show ?thesis
      unfolding findExtendingLeafType_def Let_def filt by (simp add: filter_find_none)
  next
    case False
    with a show ?thesis
      unfolding findExtendingLeafType_def Let_def filt by (simp add: filter_find_hd)
  qed
qed

lemma findExtendingLeafType_concrete:
  "\<not> isAbstract t \<Longrightarrow> findExtendingLeafType mm t = Inr (Some t)"
  by (simp add: findExtendingLeafType_def)

subsection \<open>One step of \<^verbatim>\<open>getFieldValue\<close> and of \<^verbatim>\<open>visitClassDeclaration\<close>\<close>

lemma getFieldValue_prim:
  "isPrimitiveType (getFullyQualifiedTypeName field) \<Longrightarrow>
   getFieldValue fuel P field st =
     Return (primitiveValue (generatorOf P) (getFullyQualifiedTypeName field) (tick st), draw st)"
  by (simp add: getFieldValue.simps)

lemma getProp_setProp: "getProp (setProp obj n v) m = (if m = n then v else getProp obj m)"
  by (cases obj) (simp_all add: getProp_def update_conv')

lemma findExtendingLeafType_not_null: "findExtendingLeafType mm t \<noteq> Inr None"
  by (simp add: findExtendingLeafType_def Let_def)

lemma getFieldValue_Return_cases:
  assumes "getFieldValue fuel P field st = Return (v, st')"
  shows "(isPrimitiveType (getFullyQualifiedTypeName field) \<and> st' = draw st \<and>
          v = primitiveValue (generatorOf P) (getFullyQualifiedTypeName field) (tick st))
       \<or> (\<not> isPrimitiveType (getFullyQualifiedTypeName field) \<and> st' = draw st \<and>
            (\<exists>c vs. getType (modelManager P) (getFullyQualifiedTypeName field) = Inr (EnumDecl c vs) \<and>
               v = Str (getEnumValueName (getEnum (generatorOf P) (tick st) vs))))
       \<or> (\<not> isPrimitiveType (getFullyQualifiedTypeName field) \<and>
            (\<exists>c0 c fuel' obj.
               getType (modelManager P) (getFullyQualifiedTypeName field) = Inr (ClassDecl c0) \<and>
               findExtendingLeafType (modelManager P) c0 = Inr (Some c) \<and> fuel = Suc fuel' \<and>
               ((isConcept c \<and> newConcept (factory P) (getNamespace c) (getName c) = Inr obj \<and>
                 visitClassDeclaration fuel' P c (push obj st) = Return (v, st'))
              \<or> (\<not> isConcept c \<and>
                 newResource (factory P) (getNamespace c) (getName c)
                   (randomId (getIdentifierFieldName c) (mathRandom P (tick st))) = Inr obj \<and>
                 visitClassDeclaration fuel' P c (push obj (draw st)) = Return (v, st')))))"
  using assms
  apply (subst (asm) getFieldValue.simps)
  apply (simp add: Let_def isAbstractMethodTruthy_def findExtendingLeafType_not_null
      split: if_splits sum.splits schemaType.splits option.splits nat.splits)
  done

subsection \<open>The stack\<close>

lemma relationshipLoop_stack:
  "relationshipLoop P cd k res st = Return (v, st') \<Longrightarrow> stack st' = stack st"
  by (induction k arbitrary: res st) (auto simp: Let_def draw_def split: sum.splits)

lemma visitRelationshipDeclaration_stack:
  "visitRelationshipDeclaration P r st = Return (v, st') \<Longrightarrow> stack st' = stack st"
  by (auto simp: visitRelationshipDeclaration_def Let_def draw_def
      dest: relationshipLoop_stack split: sum.splits if_splits)

lemma fieldLoop_stack:
  assumes g: "\<And>s v s'. getFieldValue fuel P field s = Return (v, s') \<Longrightarrow> stack s' = stack s"
  shows "fieldLoop fuel P field k res st = Return (v, st') \<Longrightarrow> stack st' = stack st"
proof (induction k arbitrary: res st)
  case 0
  then show ?case by simp
next
  case (Suc k)
  then obtain w s where a: "getFieldValue fuel P field st = Return (w, s)"
    and b: "fieldLoop fuel P field k (res @ [w]) s = Return (v, st')"
    by (auto split: result.splits)
  from Suc.IH [OF b] g [OF a] show ?case by simp
qed

lemma visitField_stack:
  assumes g: "\<And>field s v s'. getFieldValue fuel P field s = Return (v, s') \<Longrightarrow> stack s' = stack s"
    and r: "visitField fuel P field st = Return (v, st')"
  shows "stack st' = stack st"
proof (cases "isArray field")
  case True
  with r have "fieldLoop fuel P field 3 [] st = Return (v, st')"
    by (simp add: visitField.simps)
  with g show ?thesis by (blast intro: fieldLoop_stack)
next
  case False
  with r have "getFieldValue fuel P field st = Return (v, st')"
    by (simp add: visitField.simps)
  then show ?thesis by (rule g)
qed

lemma acceptProperty_stack:
  assumes g: "\<And>field s v s'. getFieldValue fuel P field s = Return (v, s') \<Longrightarrow> stack s' = stack s"
    and r: "acceptProperty fuel P p st = Return (v, st')"
  shows "stack st' = stack st"
proof (cases p)
  case (Field n t a)
  with r show ?thesis by (simp add: visitField_stack [OF g])
next
  case (RelationshipDeclaration n t a)
  with r show ?thesis by (simp add: visitRelationshipDeclaration_stack)
qed

lemma visitProperties_stack:
  assumes g: "\<And>field s v s'. getFieldValue fuel P field s = Return (v, s') \<Longrightarrow> stack s' = stack s"
  shows "visitProperties fuel P ps obj st = Return (obj', st') \<Longrightarrow> stack st' = stack st"
proof (induction ps arbitrary: obj st)
  case Nil
  then show ?case by simp
next
  case (Cons p ps)
  show ?case
  proof (cases "isNull (getProp obj (getPropertyName p))")
    case True
    with Cons.prems obtain w s where a: "acceptProperty fuel P p st = Return (w, s)"
      and b: "visitProperties fuel P ps (setProp obj (getPropertyName p) w) s = Return (obj', st')"
      by (auto split: result.splits)
    from Cons.IH [OF b] acceptProperty_stack [OF g a] show ?thesis by simp
  next
    case False
    with Cons.prems have "visitProperties fuel P ps obj st = Return (obj', st')" by simp
    then show ?thesis by (rule Cons.IH)
  qed
qed

lemma visitClassDeclaration_Return_cases:
  assumes "visitClassDeclaration fuel P cd st = Return (v, st')"
  shows "(stack st = [] \<and> getProperties cd = [] \<and> v = Undefined \<and> st' = st)
       \<or> (\<exists>obj rest obj'. stack st = obj # rest \<and> v = Obj obj' \<and>
             visitProperties fuel P (getProperties cd) obj (st\<lparr>stack := rest\<rparr>) = Return (obj', st'))"
  using assms
  by (auto simp: visitClassDeclaration.simps split: list.splits result.splits if_splits)

lemma visitClassDeclaration_stack:
  assumes g: "\<And>field s v s'. getFieldValue fuel P field s = Return (v, s') \<Longrightarrow> stack s' = stack s"
    and r: "visitClassDeclaration fuel P cd st = Return (v, st')"
  shows "stack st' = tl (stack st)"
  using visitClassDeclaration_Return_cases [OF r]
proof (elim disjE exE conjE)
  assume "stack st = []" "st' = st"
  then show ?thesis by simp
next
  fix obj rest obj'
  assume s: "stack st = obj # rest"
    and "visitProperties fuel P (getProperties cd) obj (st\<lparr>stack := rest\<rparr>) = Return (obj', st')"
  with g have "stack st' = stack (st\<lparr>stack := rest\<rparr>)"
    by (blast intro: visitProperties_stack)
  with s show ?thesis by simp
qed

lemma getFieldValue_stack:
  "getFieldValue fuel P field st = Return (v, st') \<Longrightarrow> stack st' = stack st"
proof (induction fuel arbitrary: P field st v st')
  case 0
  from getFieldValue_Return_cases [OF 0] show ?case
    by (auto simp: draw_def)
next
  case (Suc n)
  have vc: "stack s' = tl (stack s)" if "visitClassDeclaration n P c s = Return (v, s')" for c s v s'
    using Suc.IH that by (blast intro: visitClassDeclaration_stack)
  from getFieldValue_Return_cases [OF Suc.prems] show ?case
    by (auto simp: draw_def push_def dest!: vc)
qed

subsection \<open>Properties that already have a value\<close>

lemma visitProperties_unchanged:
  "visitProperties fuel P ps obj st = Return (obj', st') \<Longrightarrow>
   \<not> isNull (getProp obj n) \<or> n \<notin> getPropertyName ` set ps \<Longrightarrow>
   getProp obj' n = getProp obj n"
proof (induction ps arbitrary: obj st)
  case Nil
  then show ?case by simp
next
  case (Cons p ps)
  show ?case
  proof (cases "isNull (getProp obj (getPropertyName p))")
    case True
    with Cons.prems(1) obtain w s where
      b: "visitProperties fuel P ps (setProp obj (getPropertyName p) w) s = Return (obj', st')"
      by (auto split: result.splits)
    from Cons.prems(2) True have ne: "n \<noteq> getPropertyName p" by auto
    with Cons.prems(2) have
      "\<not> isNull (getProp (setProp obj (getPropertyName p) w) n) \<or> n \<notin> getPropertyName ` set ps"
      by (auto simp: getProp_setProp)
    from Cons.IH [OF b this] ne show ?thesis by (simp add: getProp_setProp)
  next
    case False
    with Cons.prems(1) have b: "visitProperties fuel P ps obj st = Return (obj', st')" by simp
    from Cons.prems(2) have "\<not> isNull (getProp obj n) \<or> n \<notin> getPropertyName ` set ps" by auto
    from Cons.IH [OF b this] show ?thesis .
  qed
qed

lemma visitProperties_populated:
  "\<forall>p \<in> set ps. \<not> isNull (getProp obj (getPropertyName p)) \<Longrightarrow>
   visitProperties fuel P ps obj st = Return (obj, st)"
  by (induction ps) simp_all

subsection \<open>Four decimal digits\<close>

lemma div10_div10: "(m::nat) div 10 div 10 = m div 100"
  by (simp add: div_mult2_eq [symmetric])

lemma div10_div100: "(m::nat) div 10 div 100 = m div 1000"
  by (simp add: div_mult2_eq [symmetric])

lemma div10_div10_mod: "(m::nat) div 10 div 10 mod 10 = m div 100 mod 10"
  by (simp only: div10_div10)

lemma digits_two:
  assumes "10 \<le> m" and "m < 100"
  shows "digits m = [digitChar (m div 10), digitChar (m mod 10)]"
proof -
  from assms have "\<not> m < 10" and "m div 10 < 10" by simp_all
  then show ?thesis by (simp add: digits_large digits_small)
qed

lemma digits_three:
  assumes "100 \<le> m" and "m < 1000"
  shows "digits m = [digitChar (m div 100), digitChar (m div 10 mod 10), digitChar (m mod 10)]"
proof -
  from assms have a: "\<not> m < 10" and b: "10 \<le> m div 10" and c: "m div 10 < 100" by simp_all
  from a have "digits m = digits (m div 10) @ [digitChar (m mod 10)]" by (rule digits_large)
  also from digits_two [OF b c] have "digits (m div 10) = [digitChar (m div 100), digitChar (m div 10 mod 10)]"
    by (simp only: div10_div10)
  finally show ?thesis by simp
qed

lemma digits_four:
  assumes "1000 \<le> m" and "m < 10000"
  shows "digits m = [digitChar (m div 1000), digitChar (m div 100 mod 10),
                     digitChar (m div 10 mod 10), digitChar (m mod 10)]"
proof -
  from assms have a: "\<not> m < 10" and b: "100 \<le> m div 10" and c: "m div 10 < 1000" by simp_all
  from a have "digits m = digits (m div 10) @ [digitChar (m mod 10)]" by (rule digits_large)
  also from digits_three [OF b c] have "digits (m div 10) =
      [digitChar (m div 1000), digitChar (m div 100 mod 10), digitChar (m div 10 mod 10)]"
    by (simp only: div10_div100 div10_div10)
  finally show ?thesis by simp
qed

lemma digitChar_0: "digitChar 0 = CHR ''0''"
  by (simp add: digitChar_def)


lemma leftPad_digits:
  assumes "m < 10000"
  shows "leftPad (digits m) 4 CHR ''0'' =
     [digitChar (m div 1000), digitChar (m div 100 mod 10), digitChar (m div 10 mod 10),
      digitChar (m mod 10)]"
proof -
  consider "m < 10" | "10 \<le> m" "m < 100" | "100 \<le> m" "m < 1000" | "1000 \<le> m"
    by linarith
  then show ?thesis
  proof cases
    case 1
    then have "m div 1000 = 0" "m div 100 = 0" "m div 10 = 0" by simp_all
    with 1 show ?thesis
      by (simp add: leftPad_def digits_small digitChar_0 replicate_upto_4)
  next
    case 2
    then have "m div 1000 = 0" "m div 100 = 0" by simp_all
    with 2 show ?thesis
      by (simp add: leftPad_def digits_two digitChar_0 replicate_upto_4)
  next
    case 3
    then have "m div 1000 = 0" by simp
    with 3 show ?thesis
      by (simp add: leftPad_def digits_three digitChar_0)
  next
    case 4
    with assms show ?thesis
      by (simp add: leftPad_def digits_four)
  qed
qed

lemma mathRound_range:
  assumes "0 \<le> r" "r < 1"
  shows "0 \<le> mathRound (doubleTimes r 9999) \<and> mathRound (doubleTimes r 9999) \<le> 9999"
proof -
  from doubleTimes_range [OF assms] have p: "0 \<le> doubleTimes r 9999" "doubleTimes r 9999 \<le> 9999"
    by simp_all
  from p(1) have "0 \<le> doubleTimes r 9999 + 1 / 2" by simp
  then have a: "0 \<le> mathRound (doubleTimes r 9999)"
    unfolding mathRound_def by (simp only: zero_le_floor)
  from p(2) have "doubleTimes r 9999 + 1 / 2 < 10000" by simp
  then have "mathRound (doubleTimes r 9999) < 10000"
    unfolding mathRound_def by (simp add: floor_less_iff)
  with a show ?thesis by simp
qed

lemma decimal_combine:
  "(m::nat) = 10 * a + d4 \<Longrightarrow> a = 10 * b + d3 \<Longrightarrow> b = 10 * c + d2 \<Longrightarrow>
   m = 1000 * c + 100 * d2 + 10 * d3 + d4"
  by simp

lemma decimal_expansion:
  "(m::nat) = 1000 * (m div 1000) + 100 * (m div 100 mod 10) + 10 * (m div 10 mod 10) + m mod 10"
proof -
  have a: "m = 10 * (m div 10) + m mod 10" by simp
  have b: "m div 10 = 10 * (m div 100) + m div 10 mod 10"
    using div_mult_mod_eq [of "m div 10" 10] by (simp only: div10_div10 mult.commute)
  have "m div 100 div 10 = m div 1000"
    by (simp add: div_mult2_eq [symmetric])
  then have c: "m div 100 = 10 * (m div 1000) + m div 100 mod 10"
    using div_mult_mod_eq [of "m div 100" 10] by (simp only: mult.commute)
  from decimal_combine [OF a b c] show ?thesis .
qed

lemma randomId_format:
  assumes "0 \<le> r" and "r < 1"
  shows "\<exists>k \<le> 9999. mathRound (doubleTimes r 9999) = int k \<and>
           randomId identifierFieldName r =
             (case identifierFieldName of None \<Rightarrow> ''null'' | Some f \<Rightarrow> f) @ '':'' @ fourDigits k"
proof -
  define m where "m = nat (mathRound (doubleTimes r 9999))"
  from mathRound_range [OF assms]
  have rg: "0 \<le> mathRound (doubleTimes r 9999)" "mathRound (doubleTimes r 9999) \<le> 9999"
    by simp_all
  then have m: "m < 10000" and le: "m \<le> 9999" and k: "mathRound (doubleTimes r 9999) = int m"
    by (simp_all add: m_def)
  have idx: "randomIdx r =
      [digitChar (m div 1000), digitChar (m div 100 mod 10), digitChar (m div 10 mod 10),
       digitChar (m mod 10)]"
    using rg leftPad_digits [OF m] by (simp add: randomIdx_def toString_def m_def)
  have tt: "templateText identifierFieldName =
      (case identifierFieldName of None \<Rightarrow> ''null'' | Some f \<Rightarrow> f)"
    by (cases identifierFieldName) simp_all
  have d1: "m div 1000 < 10" using m by simp
  have "randomId identifierFieldName r =
          (case identifierFieldName of None \<Rightarrow> ''null'' | Some f \<Rightarrow> f) @ '':'' @ fourDigits m"
    using d1 by (simp add: randomId_def idx tt digitChar_def fourDigits_def)
  with le k show ?thesis by blast
qed

subsection \<open>Failing leaf resolution, enums, flat properties\<close>

lemma visitProperties_append:
  "visitProperties fuel P (xs @ ys) obj st =
     (case visitProperties fuel P xs obj st of
        Return (obj', st') \<Rightarrow> visitProperties fuel P ys obj' st'
      | Throw e \<Rightarrow> Throw e
      | OutOfFuel \<Rightarrow> OutOfFuel)"
  by (induction xs arbitrary: obj st) (auto split: result.splits)

lemma findExtendingLeafType_none:
  assumes "isAbstract c"
    and "\<forall>d \<in> set (getClassDeclarations mm).
           \<not> (\<not> isAbstract d \<and> getSuperType d = Some (getFullyQualifiedName c))"
  shows "findExtendingLeafType mm c = Inl (NoConcreteClass (getFullyQualifiedName c))"
proof -
  from assms(2) have "List.find (\<lambda>d. \<not> isAbstract d \<and> getSuperType d = Some (getFullyQualifiedName c))
      (getClassDeclarations mm) = None"
    by (simp add: find_None_iff)
  with assms(1) show ?thesis by (simp add: findExtendingLeafType_find)
qed

lemma getFieldValue_no_concrete:
  assumes "\<not> isPrimitiveType (getFullyQualifiedTypeName field)"
    and "getType (modelManager P) (getFullyQualifiedTypeName field) = Inr (ClassDecl c)"
    and "findExtendingLeafType (modelManager P) c = Inl e"
  shows "getFieldValue fuel P field st = Throw e"
  using assms by (simp add: getFieldValue.simps isAbstractMethodTruthy_def)

lemma getFieldValue_enum:
  assumes "\<not> isPrimitiveType (getFullyQualifiedTypeName field)"
    and "getType (modelManager P) (getFullyQualifiedTypeName field) = Inr (EnumDecl c vs)"
  shows "getFieldValue fuel P field st =
           Return (Str (getEnumValueName (getEnum (generatorOf P) (tick st) vs)), draw st)"
  using assms by (simp add: getFieldValue.simps)




section \<open>The claims\<close>

subsection \<open>C1: relationships are not followed\<close>



subsection \<open>C2: properties that have a value are left alone\<close>

text \<open>
  Claim C2. \<^verbatim>\<open>visitClassDeclaration\<close> assigns a property only when its current value
  is \<^verbatim>\<open>null\<close> or unset: whenever the call returns, every property of the instance that
  had a value before, and every property the class does not declare, has the same value
  after. When all declared properties have a value, the call returns the instance as it
  was, whatever the fuel, and only the stack has lost its top.
\<close>

theorem populated_properties_unchanged:
  assumes "stack st = obj # rest"
  shows "(\<forall>v st'. visitClassDeclaration fuel P cd st = Return (v, st') \<longrightarrow>
            (\<exists>obj'. v = Obj obj' \<and>
               (\<forall>n. \<not> isNull (getProp obj n) \<or> n \<notin> getPropertyName ` set (getProperties cd)
                  \<longrightarrow> getProp obj' n = getProp obj n)))
       \<and> ((\<forall>p \<in> set (getProperties cd). \<not> isNull (getProp obj (getPropertyName p))) \<longrightarrow>
            visitClassDeclaration fuel P cd st = Return (Obj obj, st\<lparr>stack := rest\<rparr>))"
proof (intro conjI allI impI)
  fix v st'
  assume r: "visitClassDeclaration fuel P cd st = Return (v, st')"
  from visitClassDeclaration_Return_cases [OF r] assms obtain obj' where
    v: "v = Obj obj'" and
    p: "visitProperties fuel P (getProperties cd) obj (st\<lparr>stack := rest\<rparr>) = Return (obj', st')"
    by auto
  from visitProperties_unchanged [OF p] v
  show "\<exists>obj'. v = Obj obj' \<and>
          (\<forall>n. \<not> isNull (getProp obj n) \<or> n \<notin> getPropertyName ` set (getProperties cd)
             \<longrightarrow> getProp obj' n = getProp obj n)"
    by blast
next
  assume "\<forall>p \<in> set (getProperties cd). \<not> isNull (getProp obj (getPropertyName p))"
  then have "visitProperties fuel P (getProperties cd) obj (st\<lparr>stack := rest\<rparr>) =
               Return (obj, st\<lparr>stack := rest\<rparr>)"
    by (rule visitProperties_populated)
  with assms show "visitClassDeclaration fuel P cd st = Return (Obj obj, st\<lparr>stack := rest\<rparr>)"
    by (simp add: visitClassDeclaration.simps)
qed

theorem populated_properties_unchanged_witness:
  "stack \<lparr>stack = [Resource ''org.acme'' ''A'' ''aId:0001'' [(''aId'', Str ''mine'')]], tick = 0\<rparr> =
     Resource ''org.acme'' ''A'' ''aId:0001'' [(''aId'', Str ''mine'')] # [] \<and>
   visitClassDeclaration 0 acmeParameters acmeA
       \<lparr>stack = [Resource ''org.acme'' ''A'' ''aId:0001'' [(''aId'', Str ''mine'')]], tick = 0\<rparr> =
     Return (Obj (Resource ''org.acme'' ''A'' ''aId:0001''
                [(''aId'', Str ''mine''),
                 (''toB'', Rel (Relationship ''org.acme'' ''B'' ''bId:0042''))]),
             \<lparr>stack = [], tick = 1\<rparr>) \<and>
   (\<exists>obj'. Obj (Resource ''org.acme'' ''A'' ''aId:0001''
                [(''aId'', Str ''mine''),
                 (''toB'', Rel (Relationship ''org.acme'' ''B'' ''bId:0042''))]) = Obj obj' \<and>
      getProp obj' ''aId'' = Str ''mine'') \<and>
   visitClassDeclaration 0 acmeParameters acmeA
       \<lparr>stack = [Resource ''org.acme'' ''A'' ''aId:0001''
                   [(''aId'', Str ''mine''),
                    (''toB'', Rel (Relationship ''org.acme'' ''B'' ''bId:0042''))]], tick = 1\<rparr> =
     Return (Obj (Resource ''org.acme'' ''A'' ''aId:0001''
                [(''aId'', Str ''mine''),
                 (''toB'', Rel (Relationship ''org.acme'' ''B'' ''bId:0042''))]),
             \<lparr>stack = [], tick = 1\<rparr>)"
proof -
  let ?o0 = "Resource ''org.acme'' ''A'' ''aId:0001'' [(''aId'', Str ''mine'')]"
  let ?o1 = "Resource ''org.acme'' ''A'' ''aId:0001''
               [(''aId'', Str ''mine''),
                (''toB'', Rel (Relationship ''org.acme'' ''B'' ''bId:0042''))]"
  have s0: "stack \<lparr>stack = [?o0], tick = 0\<rparr> = ?o0 # []" by simp
  have s1: "stack \<lparr>stack = [?o1], tick = 1\<rparr> = ?o1 # []" by simp
  have e: "visitClassDeclaration 0 acmeParameters acmeA \<lparr>stack = [?o0], tick = 0\<rparr> =
             Return (Obj ?o1, \<lparr>stack = [], tick = 1\<rparr>)"
    by (simp add: gen_eval idx_eval acme_eval)
  have n0: "\<not> isNull (getProp ?o0 ''aId'')"
    by (simp add: getProp_def isNull_def)
  have full: "\<forall>p \<in> set (getProperties acmeA). \<not> isNull (getProp ?o1 (getPropertyName p))"
    by (simp add: acme_eval getProp_def isNull_def)
  from populated_properties_unchanged [OF s0, of 0 acmeParameters acmeA] e n0
  have a: "\<exists>obj'. Obj ?o1 = Obj obj' \<and> getProp obj' ''aId'' = Str ''mine''"
    by (simp add: getProp_def)
  from populated_properties_unchanged [OF s1, of 0 acmeParameters acmeA] full
  have b: "visitClassDeclaration 0 acmeParameters acmeA \<lparr>stack = [?o1], tick = 1\<rparr> =
             Return (Obj ?o1, \<lparr>stack = [], tick = 1\<rparr>)"
    by simp
  from s0 e a b show ?thesis by simp
qed

subsection \<open>C3: arrays have three elements\<close>



subsection \<open>C4: leaf resolution picks the first direct concrete subtype\<close>

text \<open>
  Claim C4. For an abstract type, \<^verbatim>\<open>findExtendingLeafType\<close> goes through all class
  declarations of the schema and returns the first one, in the order of the enumeration,
  that is not abstract and whose direct supertype is the fully-qualified name of the
  abstract type. So a declaration is the result exactly when it stands at a position
  before which no such declaration occurs; a concrete descendant that is not a direct
  subtype is never the result. In the sample schema the deeper descendant \<open>Leaf\<close> and
  the abstract \<open>Mid\<close> come before \<open>First\<close>, which is the one returned.
\<close>

theorem leaf_resolution_first_direct:
  assumes "isAbstract t"
  shows "(findExtendingLeafType mm t = Inr (Some c)) \<longleftrightarrow>
         (\<exists>i < length (getClassDeclarations mm).
            getClassDeclarations mm ! i = c \<and>
            \<not> isAbstract c \<and> getSuperType c = Some (getFullyQualifiedName t) \<and>
            (\<forall>j < i. \<not> (\<not> isAbstract (getClassDeclarations mm ! j) \<and>
               getSuperType (getClassDeclarations mm ! j) = Some (getFullyQualifiedName t))))"
    (is "?L \<longleftrightarrow> ?R")
proof -
  let ?Q = "\<lambda>c. \<not> isAbstract c \<and> getSuperType c = Some (getFullyQualifiedName t)"
  have "?L \<longleftrightarrow> List.find ?Q (getClassDeclarations mm) = Some c"
    by (simp add: findExtendingLeafType_find [OF assms] split: option.splits)
  also have "\<dots> \<longleftrightarrow> ?R"
    unfolding find_Some_iff by blast
  finally show ?thesis .
qed

theorem leaf_resolution_first_direct_witness:
  "isAbstract acmeBase \<and>
   findExtendingLeafType acmeModelManager acmeBase = Inr (Some acmeFirst) \<and>
   (\<exists>i < length (getClassDeclarations acmeModelManager).
      getClassDeclarations acmeModelManager ! i = acmeFirst \<and>
      \<not> isAbstract acmeFirst \<and>
      getSuperType acmeFirst = Some (getFullyQualifiedName acmeBase) \<and>
      (\<forall>j < i. \<not> (\<not> isAbstract (getClassDeclarations acmeModelManager ! j) \<and>
         getSuperType (getClassDeclarations acmeModelManager ! j) =
           Some (getFullyQualifiedName acmeBase))))"
proof -
  have h: "isAbstract acmeBase"
    by (simp add: acme_eval)
  have e: "findExtendingLeafType acmeModelManager acmeBase = Inr (Some acmeFirst)"
    by (simp add: findExtendingLeafType_def acme_eval)
  from leaf_resolution_first_direct [OF h, of acmeModelManager acmeFirst] e h
  show ?thesis by blast
qed

subsection \<open>C5: an abstract type without concrete direct subtype\<close>

text \<open>
  Claim C5. When the type of a field is an abstract class and no class declaration of the
  schema is a non-abstract direct subtype of it, generating the field throws the error
  that carries the fully-qualified name of the abstract type, for a single-valued and
  for an array-typed field and whatever the fuel. The error ends the whole call: a
  \<^verbatim>\<open>visitClassDeclaration\<close> that comes to generate such a field (the properties before
  it were generated, and the field has no value yet) throws the same error and returns
  no instance. In the sample schema \<open>Top\<close> has concrete descendants, but its only
  direct subtype \<open>Base\<close> is abstract.
\<close>

theorem no_concrete_subtype_aborts:
  assumes np: "\<not> isPrimitiveType t"
    and ty: "getType (modelManager P) t = Inr (ClassDecl c)"
    and ab: "isAbstract c"
    and none: "\<forall>d \<in> set (getClassDeclarations (modelManager P)).
                 \<not> (\<not> isAbstract d \<and> getSuperType d = Some (getFullyQualifiedName c))"
  shows "acceptProperty fuel P (Field n t a) st = Throw (NoConcreteClass (getFullyQualifiedName c)) \<and>
         (getProperties cd = before @ Field n t a # after \<and> stack st = obj # rest \<and>
          visitProperties fuel P before obj (st\<lparr>stack := rest\<rparr>) = Return (obj1, st1) \<and>
          isNull (getProp obj1 n) \<longrightarrow>
          visitClassDeclaration fuel P cd st = Throw (NoConcreteClass (getFullyQualifiedName c)))"
proof -
  let ?e = "NoConcreteClass (getFullyQualifiedName c)"
  from ab none have l: "findExtendingLeafType (modelManager P) c = Inl ?e"
    by (rule findExtendingLeafType_none)
  have g: "getFieldValue fuel P (Field n t b) s = Throw ?e" for s b
    using np ty l by (simp add: getFieldValue_no_concrete)
  have vf: "visitField fuel P (Field n t a) s = Throw ?e" for s
    by (simp add: visitField.simps fieldLoop_3 g)
  then have acc: "acceptProperty fuel P (Field n t a) s = Throw ?e" for s
    by simp
  have "visitClassDeclaration fuel P cd st = Throw ?e"
    if "getProperties cd = before @ Field n t a # after" "stack st = obj # rest"
      "visitProperties fuel P before obj (st\<lparr>stack := rest\<rparr>) = Return (obj1, st1)"
      "isNull (getProp obj1 n)"
    using that by (simp add: visitClassDeclaration.simps visitProperties_append vf)
  with acc show ?thesis by blast
qed

theorem no_concrete_subtype_aborts_witness:
  "\<not> isPrimitiveType ''org.acme.Top'' \<and>
   getType (modelManager acmeParameters) ''org.acme.Top'' = Inr (ClassDecl acmeTop) \<and>
   isAbstract acmeTop \<and>
   filter (\<lambda>d. \<not> isAbstract d \<and> getSuperType d = Some (getFullyQualifiedName acmeTop))
     (getClassDeclarations (modelManager acmeParameters)) = [] \<and>
   acceptProperty 0 acmeParameters (Field ''kind'' ''org.acme.Top'' False)
       \<lparr>stack = [], tick = 1\<rparr> = Throw (NoConcreteClass ''org.acme.Top'') \<and>
   visitClassDeclaration 0 acmeParameters acmeStray
       \<lparr>stack = [Resource ''org.acme'' ''Stray'' ''strayId:0001'' []], tick = 0\<rparr> =
     Throw (NoConcreteClass ''org.acme.Top'')"
proof -
  let ?o = "Resource ''org.acme'' ''Stray'' ''strayId:0001'' []"
  let ?o1 = "Resource ''org.acme'' ''Stray'' ''strayId:0001'' [(''strayId'', Str ''text'')]"
  have h1: "\<not> isPrimitiveType ''org.acme.Top''"
    by (simp add: isPrimitiveType_def)
  have h2: "getType (modelManager acmeParameters) ''org.acme.Top'' = Inr (ClassDecl acmeTop)"
    by (simp add: acme_eval)
  have h3: "isAbstract acmeTop"
    by (simp add: acme_eval)
  have h4: "\<forall>d \<in> set (getClassDeclarations (modelManager acmeParameters)).
              \<not> (\<not> isAbstract d \<and> getSuperType d = Some (getFullyQualifiedName acmeTop))"
    by (simp add: acme_eval)
  have n: "getFullyQualifiedName acmeTop = ''org.acme.Top''"
    by (simp add: acme_eval)
  have p1: "getProperties acmeStray =
      [Field ''strayId'' ''String'' False] @ Field ''kind'' ''org.acme.Top'' False #
      [Field ''after'' ''String'' False]"
    by (simp add: acme_eval)
  have p2: "stack \<lparr>stack = [?o], tick = 0\<rparr> = ?o # []" by simp
  have p3: "visitProperties 0 acmeParameters [Field ''strayId'' ''String'' False] ?o
              (\<lparr>stack = [?o], tick = 0\<rparr>\<lparr>stack := []\<rparr>) =
            Return (?o1, \<lparr>stack = [], tick = 1\<rparr>)"
    by (simp add: gen_eval acme_eval)
  have p4: "isNull (getProp ?o1 ''kind'')"
    by (simp add: getProp_def isNull_def)
  note t = no_concrete_subtype_aborts [OF h1 h2 h3 h4, where fuel = 0 and n = "''kind''"
      and a = False and cd = acmeStray and before = "[Field ''strayId'' ''String'' False]"
      and after = "[Field ''after'' ''String'' False]" and obj = ?o and rest = "[]"
      and ?obj1.0 = ?o1 and ?st1.0 = "\<lparr>stack = [], tick = 1\<rparr>"]
  from t [where st = "\<lparr>stack = [], tick = 1\<rparr>"] n
  have a: "acceptProperty 0 acmeParameters (Field ''kind'' ''org.acme.Top'' False)
             \<lparr>stack = [], tick = 1\<rparr> = Throw (NoConcreteClass ''org.acme.Top'')"
    by simp
  from t [where st = "\<lparr>stack = [?o], tick = 0\<rparr>"] p1 p2 p3 p4 n
  have b: "visitClassDeclaration 0 acmeParameters acmeStray \<lparr>stack = [?o], tick = 0\<rparr> =
             Throw (NoConcreteClass ''org.acme.Top'')"
    by simp
  from h4 have h4': "filter (\<lambda>d. \<not> isAbstract d \<and>
      getSuperType d = Some (getFullyQualifiedName acmeTop))
      (getClassDeclarations (modelManager acmeParameters)) = []"
    by (simp only: filter_empty_conv)
  from h1 h2 h3 h4' a b show ?thesis by blast
qed

subsection \<open>C6: enum-typed properties\<close>

text \<open>
  Claim C6 says that for every enum-typed property the generated value is the name, a
  string, of one of the enum's values, when \<^verbatim>\<open>getEnum\<close> returns one of the values it
  was given. For an array-typed property of an enum type this is not so: the generated
  value is an array. Here \<^verbatim>\<open>getEnum\<close> returns a value of the enum at each of the
  three calls, and the property \<open>colours\<close> is generated as an array of three names.
\<close>

theorem enum_array_counterexample:
  "getType (modelManager acmeParameters) ''org.acme.Colour'' = Inr (EnumDecl acmeColour acmeColours) \<and>
   getEnum acmeGenerator 1 acmeColours \<in> set acmeColours \<and>
   getEnum acmeGenerator 2 acmeColours \<in> set acmeColours \<and>
   getEnum acmeGenerator 3 acmeColours \<in> set acmeColours \<and>
   acceptProperty 0 acmeParameters (Field ''colours'' ''org.acme.Colour'' True)
       \<lparr>stack = [], tick = 1\<rparr> =
     Return (Array [Str ''GREEN'', Str ''BLUE'', Str ''RED''], \<lparr>stack = [], tick = 4\<rparr>) \<and>
   Array [Str ''GREEN'', Str ''BLUE'', Str ''RED''] \<noteq> Str ''RED'' \<and>
   Array [Str ''GREEN'', Str ''BLUE'', Str ''RED''] \<noteq> Str ''GREEN'' \<and>
   Array [Str ''GREEN'', Str ''BLUE'', Str ''RED''] \<noteq> Str ''BLUE''"
  by (simp add: gen_eval acme_eval)

text \<open>
  Claim C6 as amended. When \<^verbatim>\<open>getEnum\<close> returns one of the values it was given: for
  every single-valued enum-typed property the generated value is the name, a string, of
  one of the values of the enum; for every array-typed one it is an array of three such
  names. Both are generated whatever the fuel, with one call of \<^verbatim>\<open>getEnum\<close> for each
  name.
\<close>

theorem enum_value_is_literal_name:
  assumes np: "\<not> isPrimitiveType t"
    and ty: "getType (modelManager P) t = Inr (EnumDecl c vs)"
    and mem: "\<forall>k. getEnum (case valueGenerator P of Some g \<Rightarrow> g | None \<Rightarrow> sample P) k vs \<in> set vs"
  shows "(\<exists>e \<in> set vs.
            acceptProperty fuel P (Field n t False) st =
              Return (Str (getEnumValueName e), st\<lparr>tick := Suc (tick st)\<rparr>)) \<and>
         (\<exists>e1 \<in> set vs. \<exists>e2 \<in> set vs. \<exists>e3 \<in> set vs.
            acceptProperty fuel P (Field n t True) st =
              Return (Array [Str (getEnumValueName e1), Str (getEnumValueName e2),
                             Str (getEnumValueName e3)],
                      st\<lparr>tick := Suc (Suc (Suc (tick st)))\<rparr>))"
proof -
  let ?g = "case valueGenerator P of Some g \<Rightarrow> g | None \<Rightarrow> sample P"
  have g: "getFieldValue fuel P (Field n t b) s =
             Return (Str (getEnumValueName (getEnum ?g (tick s) vs)), draw s)" for b s
    using np ty by (simp add: getFieldValue_enum generatorOf_def)
  have single: "acceptProperty fuel P (Field n t False) st =
      Return (Str (getEnumValueName (getEnum ?g (tick st) vs)), st\<lparr>tick := Suc (tick st)\<rparr>)"
    by (simp add: visitField.simps g draw_def)
  have array: "acceptProperty fuel P (Field n t True) st =
      Return (Array [Str (getEnumValueName (getEnum ?g (tick st) vs)),
                     Str (getEnumValueName (getEnum ?g (Suc (tick st)) vs)),
                     Str (getEnumValueName (getEnum ?g (Suc (Suc (tick st))) vs))],
              st\<lparr>tick := Suc (Suc (Suc (tick st)))\<rparr>)"
    by (simp add: visitField.simps fieldLoop_3 g draw_def)
  from mem single array show ?thesis by blast
qed

theorem enum_value_is_literal_name_witness:
  "\<not> isPrimitiveType ''org.acme.Colour'' \<and>
   getType (modelManager acmeParameters) ''org.acme.Colour'' =
     Inr (EnumDecl acmeColour acmeColours) \<and>
   (\<forall>k. getEnum (case valueGenerator acmeParameters of Some g \<Rightarrow> g
                   | None \<Rightarrow> sample acmeParameters) k acmeColours \<in> set acmeColours) \<and>
   acceptProperty 0 acmeParameters (Field ''colour'' ''org.acme.Colour'' False)
       \<lparr>stack = [], tick = 1\<rparr> = Return (Str ''GREEN'', \<lparr>stack = [], tick = 2\<rparr>) \<and>
   (\<exists>e \<in> set acmeColours.
      acceptProperty 0 acmeParameters (Field ''colour'' ''org.acme.Colour'' False)
          \<lparr>stack = [], tick = 1\<rparr> =
        Return (Str (getEnumValueName e),
                \<lparr>stack = [], tick = 1\<rparr>\<lparr>tick := Suc (tick \<lparr>stack = [], tick = 1\<rparr>)\<rparr>))"
proof -
  have h1: "\<not> isPrimitiveType ''org.acme.Colour''"
    by (simp add: isPrimitiveType_def)
  have h2: "getType (modelManager acmeParameters) ''org.acme.Colour'' =
              Inr (EnumDecl acmeColour acmeColours)"
    by (simp add: acme_eval)
  have h3: "\<forall>k. getEnum (case valueGenerator acmeParameters of Some g \<Rightarrow> g
                   | None \<Rightarrow> sample acmeParameters) k acmeColours \<in> set acmeColours"
  proof
    fix k :: nat
    have "k mod 3 = 0 \<or> k mod 3 = 1 \<or> k mod 3 = 2" by arith
    then show "getEnum (case valueGenerator acmeParameters of Some g \<Rightarrow> g
                   | None \<Rightarrow> sample acmeParameters) k acmeColours \<in> set acmeColours"
      by (auto simp: acme_eval)
  qed
  have e: "acceptProperty 0 acmeParameters (Field ''colour'' ''org.acme.Colour'' False)
             \<lparr>stack = [], tick = 1\<rparr> = Return (Str ''GREEN'', \<lparr>stack = [], tick = 2\<rparr>)"
    by (simp add: gen_eval acme_eval)
  from enum_value_is_literal_name [OF h1 h2 h3, of 0 "''colour''" "\<lparr>stack = [], tick = 1\<rparr>"]
    h1 h2 h3 e
  show ?thesis by blast
qed

subsection \<open>C7: primitive fields\<close>

text \<open>
  Claim C7. For a single-valued field of a primitive type the generator makes one call,
  to the method of the value generator that matches the type (\<open>DateTime\<close>,
  \<open>Integer\<close>, \<open>Long\<close>, \<open>Double\<close>, \<open>Boolean\<close>, and \<^verbatim>\<open>getString\<close> for any other
  primitive type), and returns what the method returned. The value generator is
  \<^verbatim>\<open>parameters.valueGenerator\<close> when it is set, the sample generator otherwise.
\<close>

theorem primitive_dispatch:
  assumes "isPrimitiveType t"
  shows "acceptProperty fuel P (Field n t False) st =
           Return
             (let g = (case valueGenerator P of Some g \<Rightarrow> g | None \<Rightarrow> sample P) in
              if t = ''DateTime'' then getDateTime g (tick st)
              else if t = ''Integer'' then getInteger g (tick st)
              else if t = ''Long'' then getLong g (tick st)
              else if t = ''Double'' then getDouble g (tick st)
              else if t = ''Boolean'' then getBoolean g (tick st)
              else getString g (tick st),
              st\<lparr>tick := Suc (tick st)\<rparr>)"
  using assms
  by (simp add: visitField.simps getFieldValue_prim primitiveValue_def generatorOf_def draw_def)

theorem primitive_dispatch_witness:
  "isPrimitiveType ''Long'' \<and>
   acceptProperty 0 acmeParameters (Field ''scores'' ''Long'' False) \<lparr>stack = [], tick = 5\<rparr> =
     Return (Num 105, \<lparr>stack = [], tick = 6\<rparr>)"
proof -
  have h: "isPrimitiveType ''Long''"
    by (simp add: isPrimitiveType_def)
  from primitive_dispatch [OF h, of 0 acmeParameters "''scores''" "\<lparr>stack = [], tick = 5\<rparr>"] h
  show ?thesis by (simp add: acme_eval)
qed

subsection \<open>C8: the form of a generated identifier\<close>

text \<open>
  Claim C8. The identifier with which the factory is asked for a generated resource or
  relationship is the identifier field name, a colon and four decimal digits: the
  digits, padded with zeros on the left, of \<^verbatim>\<open>Math.round(Math.random() * 9999)\<close>,
  which is a whole number from 0 to 9999 for every draw in [0, 1). The product is the
  product of doubles, rounded to the nearest double. The three places where an
  identifier is made are the resource branch of \<^verbatim>\<open>getFieldValue\<close> and the two branches
  of \<^verbatim>\<open>visitRelationshipDeclaration\<close>; in the array branch each of the three
  identifiers has its own draw. (A class without identifier field gives the text
  \<open>null\<close> before the colon.) The sample run draws a double whose exact product with
  9999 would round to 3 and whose product as a double is 3.5, which rounds to 4.
\<close>

theorem identifier_format:
  assumes rnd: "\<forall>n. 0 \<le> mathRandom P n \<and> mathRandom P n < 1"
  shows
    "(\<not> isPrimitiveType (getFullyQualifiedTypeName field) \<and>
      getType (modelManager P) (getFullyQualifiedTypeName field) = Inr (ClassDecl c0) \<and>
      findExtendingLeafType (modelManager P) c0 = Inr (Some c) \<and> \<not> isConcept c \<longrightarrow>
      (\<exists>k \<le> 9999. mathRound (doubleTimes (mathRandom P (tick st)) 9999) = int k \<and>
         getFieldValue fuel P field st =
           (case newResource (factory P) (getNamespace c) (getName c)
                   ((case getIdentifierFieldName c of None \<Rightarrow> ''null'' | Some f \<Rightarrow> f) @ '':'' @
                    fourDigits k) of
              Inl e \<Rightarrow> Throw e
            | Inr resource \<Rightarrow>
                (case fuel of
                   0 \<Rightarrow> OutOfFuel
                 | Suc fuel' \<Rightarrow> visitClassDeclaration fuel' P c (push resource (draw st)))))) \<and>
     (getType (modelManager P) t = Inr d \<longrightarrow>
      (\<exists>k \<le> 9999. mathRound (doubleTimes (mathRandom P (tick st)) 9999) = int k \<and>
         visitRelationshipDeclaration P (RelationshipDeclaration n t False) st =
           (case newRelationship (factory P) (getNamespace (classOf d)) (getName (classOf d))
                   ((case getIdentifierFieldName (classOf d) of None \<Rightarrow> ''null'' | Some f \<Rightarrow> f) @
                    '':'' @ fourDigits k) of
              Inl e \<Rightarrow> Throw e
            | Inr rel \<Rightarrow> Return (Rel rel, draw st)))) \<and>
     (getType (modelManager P) t = Inr d \<longrightarrow>
      (\<exists>k1 \<le> 9999. \<exists>k2 \<le> 9999. \<exists>k3 \<le> 9999.
         mathRound (doubleTimes (mathRandom P (tick st)) 9999) = int k1 \<and>
         mathRound (doubleTimes (mathRandom P (Suc (tick st))) 9999) = int k2 \<and>
         mathRound (doubleTimes (mathRandom P (Suc (Suc (tick st)))) 9999) = int k3 \<and>
         visitRelationshipDeclaration P (RelationshipDeclaration n t True) st =
           (case newRelationship (factory P) (getNamespace (classOf d)) (getName (classOf d))
                   ((case getIdentifierFieldName (classOf d) of None \<Rightarrow> ''null'' | Some f \<Rightarrow> f) @
                    '':'' @ fourDigits k1) of
              Inl e \<Rightarrow> Throw e
            | Inr r1 \<Rightarrow>
                (case newRelationship (factory P) (getNamespace (classOf d)) (getName (classOf d))
                        ((case getIdentifierFieldName (classOf d) of None \<Rightarrow> ''null''
                          | Some f \<Rightarrow> f) @ '':'' @ fourDigits k2) of
                   Inl e \<Rightarrow> Throw e
                 | Inr r2 \<Rightarrow>
                     (case newRelationship (factory P) (getNamespace (classOf d))
                             (getName (classOf d))
                             ((case getIdentifierFieldName (classOf d) of None \<Rightarrow> ''null''
                               | Some f \<Rightarrow> f) @ '':'' @ fourDigits k3) of
                        Inl e \<Rightarrow> Throw e
                      | Inr r3 \<Rightarrow>
                          Return (Array [Rel r1, Rel r2, Rel r3], draw (draw (draw st))))))))"
proof (intro conjI impI)
  assume h: "\<not> isPrimitiveType (getFullyQualifiedTypeName field) \<and>
      getType (modelManager P) (getFullyQualifiedTypeName field) = Inr (ClassDecl c0) \<and>
      findExtendingLeafType (modelManager P) c0 = Inr (Some c) \<and> \<not> isConcept c"
  from rnd have "0 \<le> mathRandom P (tick st)" "mathRandom P (tick st) < 1" by simp_all
  from randomId_format [OF this, of "getIdentifierFieldName c"] obtain k where
    k: "k \<le> 9999" "mathRound (doubleTimes (mathRandom P (tick st)) 9999) = int k"
    and i: "randomId (getIdentifierFieldName c) (mathRandom P (tick st)) =
      (case getIdentifierFieldName c of None \<Rightarrow> ''null'' | Some f \<Rightarrow> f) @ '':'' @ fourDigits k"
    by blast
  have "getFieldValue fuel P field st =
      (case newResource (factory P) (getNamespace c) (getName c)
              (randomId (getIdentifierFieldName c) (mathRandom P (tick st))) of
         Inl e \<Rightarrow> Throw e
       | Inr resource \<Rightarrow>
           (case fuel of
              0 \<Rightarrow> OutOfFuel
            | Suc fuel' \<Rightarrow> visitClassDeclaration fuel' P c (push resource (draw st))))"
    using h by (simp add: getFieldValue.simps isAbstractMethodTruthy_def Let_def)
  with k show "\<exists>k \<le> 9999. mathRound (doubleTimes (mathRandom P (tick st)) 9999) = int k \<and>
         getFieldValue fuel P field st =
           (case newResource (factory P) (getNamespace c) (getName c)
                   ((case getIdentifierFieldName c of None \<Rightarrow> ''null'' | Some f \<Rightarrow> f) @ '':'' @
                    fourDigits k) of
              Inl e \<Rightarrow> Throw e
            | Inr resource \<Rightarrow>
                (case fuel of
                   0 \<Rightarrow> OutOfFuel
                 | Suc fuel' \<Rightarrow> visitClassDeclaration fuel' P c (push resource (draw st))))"
    unfolding i by blast
next
  assume d: "getType (modelManager P) t = Inr d"
  let ?f = "getIdentifierFieldName (classOf d)"
  from rnd have "0 \<le> mathRandom P (tick st)" "mathRandom P (tick st) < 1" by simp_all
  from randomId_format [OF this, of ?f] obtain k where
    k: "k \<le> 9999" "mathRound (doubleTimes (mathRandom P (tick st)) 9999) = int k"
    and i: "randomId ?f (mathRandom P (tick st)) =
      (case ?f of None \<Rightarrow> ''null'' | Some f \<Rightarrow> f) @ '':'' @ fourDigits k"
    by blast
  have "visitRelationshipDeclaration P (RelationshipDeclaration n t False) st =
      (case newRelationship (factory P) (getNamespace (classOf d)) (getName (classOf d))
              (randomId ?f (mathRandom P (tick st))) of
         Inl e \<Rightarrow> Throw e
       | Inr rel \<Rightarrow> Return (Rel rel, draw st))"
    using d by (simp add: visitRelationshipDeclaration_def Let_def)
  with k show "\<exists>k \<le> 9999. mathRound (doubleTimes (mathRandom P (tick st)) 9999) = int k \<and>
         visitRelationshipDeclaration P (RelationshipDeclaration n t False) st =
           (case newRelationship (factory P) (getNamespace (classOf d)) (getName (classOf d))
                   ((case ?f of None \<Rightarrow> ''null'' | Some f \<Rightarrow> f) @ '':'' @ fourDigits k) of
              Inl e \<Rightarrow> Throw e
            | Inr rel \<Rightarrow> Return (Rel rel, draw st))"
    unfolding i by blast
next
  assume d: "getType (modelManager P) t = Inr d"
  let ?f = "getIdentifierFieldName (classOf d)"
  let ?new = "newRelationship (factory P) (getNamespace (classOf d)) (getName (classOf d))"
  let ?id = "\<lambda>k. (case ?f of None \<Rightarrow> ''null'' | Some f \<Rightarrow> f) @ '':'' @ fourDigits k"
  have fmt: "\<exists>k \<le> 9999. mathRound (doubleTimes (mathRandom P j) 9999) = int k \<and>
      randomId ?f (mathRandom P j) = ?id k" for j
    using rnd randomId_format [of "mathRandom P j" ?f] by simp
  from fmt [of "tick st"] obtain k1 where
    k1: "k1 \<le> 9999" "mathRound (doubleTimes (mathRandom P (tick st)) 9999) = int k1"
    and i1: "randomId ?f (mathRandom P (tick st)) = ?id k1" by blast
  from fmt [of "Suc (tick st)"] obtain k2 where
    k2: "k2 \<le> 9999" "mathRound (doubleTimes (mathRandom P (Suc (tick st))) 9999) = int k2"
    and i2: "randomId ?f (mathRandom P (Suc (tick st))) = ?id k2" by blast
  from fmt [of "Suc (Suc (tick st))"] obtain k3 where
    k3: "k3 \<le> 9999" "mathRound (doubleTimes (mathRandom P (Suc (Suc (tick st)))) 9999) = int k3"
    and i3: "randomId ?f (mathRandom P (Suc (Suc (tick st)))) = ?id k3" by blast
  have "visitRelationshipDeclaration P (RelationshipDeclaration n t True) st =
      (case ?new (randomId ?f (mathRandom P (tick st))) of
         Inl e \<Rightarrow> Throw e
       | Inr r1 \<Rightarrow>
           (case ?new (randomId ?f (mathRandom P (Suc (tick st)))) of
              Inl e \<Rightarrow> Throw e
            | Inr r2 \<Rightarrow>
                (case ?new (randomId ?f (mathRandom P (Suc (Suc (tick st))))) of
                   Inl e \<Rightarrow> Throw e
                 | Inr r3 \<Rightarrow> Return (Array [Rel r1, Rel r2, Rel r3], draw (draw (draw st))))))"
    using d
    by (simp add: visitRelationshipDeclaration_def relationshipLoop_3 Let_def draw_def
        split: sum.splits)
  then have "visitRelationshipDeclaration P (RelationshipDeclaration n t True) st =
      (case ?new (?id k1) of
         Inl e \<Rightarrow> Throw e
       | Inr r1 \<Rightarrow>
           (case ?new (?id k2) of
              Inl e \<Rightarrow> Throw e
            | Inr r2 \<Rightarrow>
                (case ?new (?id k3) of
                   Inl e \<Rightarrow> Throw e
                 | Inr r3 \<Rightarrow> Return (Array [Rel r1, Rel r2, Rel r3], draw (draw (draw st))))))"
    unfolding i1 i2 i3 .
  with k1 k2 k3 show "\<exists>k1 \<le> 9999. \<exists>k2 \<le> 9999. \<exists>k3 \<le> 9999.
         mathRound (doubleTimes (mathRandom P (tick st)) 9999) = int k1 \<and>
         mathRound (doubleTimes (mathRandom P (Suc (tick st))) 9999) = int k2 \<and>
         mathRound (doubleTimes (mathRandom P (Suc (Suc (tick st)))) 9999) = int k3 \<and>
         visitRelationshipDeclaration P (RelationshipDeclaration n t True) st =
           (case ?new (?id k1) of
              Inl e \<Rightarrow> Throw e
            | Inr r1 \<Rightarrow>
                (case ?new (?id k2) of
                   Inl e \<Rightarrow> Throw e
                 | Inr r2 \<Rightarrow>
                     (case ?new (?id k3) of
                        Inl e \<Rightarrow> Throw e
                      | Inr r3 \<Rightarrow>
                          Return (Array [Rel r1, Rel r2, Rel r3], draw (draw (draw st))))))"
    by blast
qed

theorem identifier_format_witness:
  "(\<forall>n. 0 \<le> mathRandom acmeNearTie n \<and> mathRandom acmeNearTie n < 1) \<and>
   mathRound (doubleTimes (mathRandom acmeNearTie 0) 9999) = 4 \<and>
   \<lfloor>mathRandom acmeNearTie 0 * 9999 + 1 / 2\<rfloor> = 3 \<and>
   getFieldValue 1 acmeNearTie (Field ''pet'' ''org.acme.Second'' False) \<lparr>stack = [], tick = 0\<rparr> =
     Return (Obj (Resource ''org.acme'' ''Second'' ''id:0004'' [(''id'', Str ''text'')]),
             \<lparr>stack = [], tick = 2\<rparr>) \<and>
   visitRelationshipDeclaration acmeNearTie (RelationshipDeclaration ''toB'' ''org.acme.B'' False)
       \<lparr>stack = [], tick = 0\<rparr> =
     Return (Rel (Relationship ''org.acme'' ''B'' ''bId:0004''), \<lparr>stack = [], tick = 1\<rparr>) \<and>
   visitRelationshipDeclaration acmeNearTie (RelationshipDeclaration ''toB'' ''org.acme.B'' True)
       \<lparr>stack = [], tick = 0\<rparr> =
     Return (Array [Rel (Relationship ''org.acme'' ''B'' ''bId:0004''),
                    Rel (Relationship ''org.acme'' ''B'' ''bId:0004''),
                    Rel (Relationship ''org.acme'' ''B'' ''bId:0004'')],
             \<lparr>stack = [], tick = 3\<rparr>) \<and>
   (\<exists>k \<le> 9999.
      mathRound (doubleTimes (mathRandom acmeNearTie (tick \<lparr>stack = [], tick = 0\<rparr>)) 9999) = int k \<and>
      getFieldValue 1 acmeNearTie (Field ''pet'' ''org.acme.Second'' False)
          \<lparr>stack = [], tick = 0\<rparr> =
        (case newResource (factory acmeNearTie) (getNamespace acmeSecond) (getName acmeSecond)
                ((case getIdentifierFieldName acmeSecond of None \<Rightarrow> ''null'' | Some f \<Rightarrow> f) @
                 '':'' @ fourDigits k) of
           Inl e \<Rightarrow> Throw e
         | Inr resource \<Rightarrow>
             (case 1 of
                0 \<Rightarrow> OutOfFuel
              | Suc fuel' \<Rightarrow>
                  visitClassDeclaration fuel' acmeNearTie acmeSecond
                    (push resource (draw \<lparr>stack = [], tick = 0\<rparr>))))) \<and>
   (\<exists>k \<le> 9999.
      mathRound (doubleTimes (mathRandom acmeNearTie (tick \<lparr>stack = [], tick = 0\<rparr>)) 9999) = int k \<and>
      visitRelationshipDeclaration acmeNearTie
          (RelationshipDeclaration ''toB'' ''org.acme.B'' False) \<lparr>stack = [], tick = 0\<rparr> =
        (case newRelationship (factory acmeNearTie) (getNamespace (classOf (ClassDecl acmeB)))
                (getName (classOf (ClassDecl acmeB)))
                ((case getIdentifierFieldName (classOf (ClassDecl acmeB)) of None \<Rightarrow> ''null''
                  | Some f \<Rightarrow> f) @ '':'' @ fourDigits k) of
           Inl e \<Rightarrow> Throw e
         | Inr rel \<Rightarrow> Return (Rel rel, draw \<lparr>stack = [], tick = 0\<rparr>)))"
proof -
  let ?s = "\<lparr>stack = [], tick = 0\<rparr>"
  let ?field = "Field ''pet'' ''org.acme.Second'' False"
  have h: "\<forall>n. 0 \<le> mathRandom acmeNearTie n \<and> mathRandom acmeNearTie n < 1"
    by (simp add: acme_eval)
  have m: "mathRound (doubleTimes (mathRandom acmeNearTie 0) 9999) = 4"
    by (simp add: acme_eval doubleTimes_near_tie mathRound_def)
  have x: "\<lfloor>mathRandom acmeNearTie 0 * 9999 + 1 / 2\<rfloor> = 3"
    by (simp add: acme_eval)
  note ev = randomId_def randomIdx_def doubleTimes_near_tie mathRound_def toString_def
    leftPad_def digitChar_def digits_small digits_large replicate_upto_4
  have e1: "getFieldValue 1 acmeNearTie ?field ?s =
     Return (Obj (Resource ''org.acme'' ''Second'' ''id:0004'' [(''id'', Str ''text'')]),
             \<lparr>stack = [], tick = 2\<rparr>)"
    by (simp add: gen_eval ev acme_eval)
  have e2: "visitRelationshipDeclaration acmeNearTie
       (RelationshipDeclaration ''toB'' ''org.acme.B'' False) ?s =
     Return (Rel (Relationship ''org.acme'' ''B'' ''bId:0004''), \<lparr>stack = [], tick = 1\<rparr>)"
    by (simp add: gen_eval ev acme_eval)
  have e3: "visitRelationshipDeclaration acmeNearTie
       (RelationshipDeclaration ''toB'' ''org.acme.B'' True) ?s =
     Return (Array [Rel (Relationship ''org.acme'' ''B'' ''bId:0004''),
                    Rel (Relationship ''org.acme'' ''B'' ''bId:0004''),
                    Rel (Relationship ''org.acme'' ''B'' ''bId:0004'')],
             \<lparr>stack = [], tick = 3\<rparr>)"
    by (simp add: gen_eval ev acme_eval)
  have a1: "\<not> isPrimitiveType (getFullyQualifiedTypeName ?field) \<and>
      getType (modelManager acmeNearTie) (getFullyQualifiedTypeName ?field) =
        Inr (ClassDecl acmeSecond) \<and>
      findExtendingLeafType (modelManager acmeNearTie) acmeSecond = Inr (Some acmeSecond) \<and>
      \<not> isConcept acmeSecond"
    by (simp add: isPrimitiveType_def findExtendingLeafType_def acme_eval)
  have a2: "getType (modelManager acmeNearTie) ''org.acme.B'' = Inr (ClassDecl acmeB)"
    by (simp add: acme_eval)
  note t = identifier_format [OF h, where field = ?field and ?c0.0 = acmeSecond
      and c = acmeSecond and fuel = 1 and st = ?s and t = "''org.acme.B''"
      and d = "ClassDecl acmeB" and n = "''toB''"]
  from t a1 a2 h m x e1 e2 e3 show ?thesis by blast
qed

subsection \<open>C9: the stack is balanced\<close>

text \<open>
  Claim C9. \<^verbatim>\<open>visitClassDeclaration\<close> takes the instance to fill from the top of
  \<^verbatim>\<open>parameters.stack\<close>, and \<^verbatim>\<open>getFieldValue\<close> pushes one new instance right before
  it has a class declaration visited. So whenever \<^verbatim>\<open>visitField\<close> or
  \<^verbatim>\<open>getFieldValue\<close> returns, the stack is the one it was called with, and whenever
  \<^verbatim>\<open>visitClassDeclaration\<close> returns, the stack has lost exactly its top, which is the
  object returned.
\<close>

theorem stack_balanced:
  "(visitField fuel P field st = Return (v, st') \<longrightarrow> stack st' = stack st) \<and>
   (getFieldValue fuel P field st = Return (v, st') \<longrightarrow> stack st' = stack st) \<and>
   (visitClassDeclaration fuel P cd st = Return (v, st') \<longrightarrow>
      stack st' = tl (stack st) \<and> (stack st \<noteq> [] \<longrightarrow> (\<exists>obj'. v = Obj obj')))"
proof (intro conjI impI)
  assume "visitField fuel P field st = Return (v, st')"
  then show "stack st' = stack st"
    by (blast intro: visitField_stack getFieldValue_stack)
next
  assume "getFieldValue fuel P field st = Return (v, st')"
  then show "stack st' = stack st"
    by (rule getFieldValue_stack)
next
  assume "visitClassDeclaration fuel P cd st = Return (v, st')"
  then show "stack st' = tl (stack st)"
    by (blast intro: visitClassDeclaration_stack getFieldValue_stack)
next
  assume "visitClassDeclaration fuel P cd st = Return (v, st')" and "stack st \<noteq> []"
  with visitClassDeclaration_Return_cases [of fuel P cd st v st']
  show "\<exists>obj'. v = Obj obj'" by auto
qed

theorem stack_balanced_witness:
  "visitField 1 acmeParameters (Field ''pets'' ''org.acme.Base'' True)
       \<lparr>stack = [Resource ''org.acme'' ''Holder'' ''holderId:0001'' []], tick = 0\<rparr> =
     Return (Array
       [Obj (Resource ''org.acme'' ''First'' ''id:0042''
              [(''id'', Str ''text''), (''weight'', Num 1)]),
        Obj (Resource ''org.acme'' ''First'' ''id:2109''
              [(''id'', Str ''text''), (''weight'', Num (5 / 2))]),
        Obj (Resource ''org.acme'' ''First'' ''id:4176''
              [(''id'', Str ''text''), (''weight'', Num 4)])],
       \<lparr>stack = [Resource ''org.acme'' ''Holder'' ''holderId:0001'' []], tick = 9\<rparr>) \<and>
   getFieldValue 1 acmeParameters (Field ''home'' ''org.acme.Address'' False)
       \<lparr>stack = [Resource ''org.acme'' ''Holder'' ''holderId:0001'' []], tick = 0\<rparr> =
     Return (Obj (Concept ''org.acme'' ''Address''
                [(''street'', Str ''text''), (''number'', Num 1)]),
             \<lparr>stack = [Resource ''org.acme'' ''Holder'' ''holderId:0001'' []], tick = 2\<rparr>) \<and>
   visitClassDeclaration 0 acmeParameters acmeAddress
       \<lparr>stack = [Concept ''org.acme'' ''Address'' [],
                 Resource ''org.acme'' ''Holder'' ''holderId:0001'' []], tick = 0\<rparr> =
     Return (Obj (Concept ''org.acme'' ''Address''
                [(''street'', Str ''text''), (''number'', Num 1)]),
             \<lparr>stack = [Resource ''org.acme'' ''Holder'' ''holderId:0001'' []], tick = 2\<rparr>) \<and>
   stack \<lparr>stack = [Resource ''org.acme'' ''Holder'' ''holderId:0001'' []], tick = 9\<rparr> =
     stack \<lparr>stack = [Resource ''org.acme'' ''Holder'' ''holderId:0001'' []], tick = 0\<rparr> \<and>
   stack \<lparr>stack = [Resource ''org.acme'' ''Holder'' ''holderId:0001'' []], tick = 2\<rparr> =
     tl (stack \<lparr>stack = [Concept ''org.acme'' ''Address'' [],
                 Resource ''org.acme'' ''Holder'' ''holderId:0001'' []], tick = 0\<rparr>)"
proof -
  let ?h = "Resource ''org.acme'' ''Holder'' ''holderId:0001'' []"
  let ?a = "Obj (Concept ''org.acme'' ''Address'' [(''street'', Str ''text''), (''number'', Num 1)])"
  let ?pets = "Array
       [Obj (Resource ''org.acme'' ''First'' ''id:0042''
              [(''id'', Str ''text''), (''weight'', Num 1)]),
        Obj (Resource ''org.acme'' ''First'' ''id:2109''
              [(''id'', Str ''text''), (''weight'', Num (5 / 2))]),
        Obj (Resource ''org.acme'' ''First'' ''id:4176''
              [(''id'', Str ''text''), (''weight'', Num 4)])]"
  have e1: "visitField 1 acmeParameters (Field ''pets'' ''org.acme.Base'' True)
              \<lparr>stack = [?h], tick = 0\<rparr> = Return (?pets, \<lparr>stack = [?h], tick = 9\<rparr>)"
    by (simp add: gen_eval idx_eval acme_eval)
  have e2: "getFieldValue 1 acmeParameters (Field ''home'' ''org.acme.Address'' False)
              \<lparr>stack = [?h], tick = 0\<rparr> = Return (?a, \<lparr>stack = [?h], tick = 2\<rparr>)"
    by (simp add: gen_eval idx_eval acme_eval)
  have e3: "visitClassDeclaration 0 acmeParameters acmeAddress
              \<lparr>stack = [Concept ''org.acme'' ''Address'' [], ?h], tick = 0\<rparr> =
            Return (?a, \<lparr>stack = [?h], tick = 2\<rparr>)"
    by (simp add: gen_eval idx_eval acme_eval)
  from stack_balanced [where fuel = 1 and P = acmeParameters
      and field = "Field ''pets'' ''org.acme.Base'' True"
      and st = "\<lparr>stack = [?h], tick = 0\<rparr>" and v = ?pets
      and st' = "\<lparr>stack = [?h], tick = 9\<rparr>"] e1
  have b1: "stack \<lparr>stack = [?h], tick = 9\<rparr> = stack \<lparr>stack = [?h], tick = 0\<rparr>"
    by blast
  from stack_balanced [where fuel = 0 and P = acmeParameters and cd = acmeAddress
      and st = "\<lparr>stack = [Concept ''org.acme'' ''Address'' [], ?h], tick = 0\<rparr>" and v = ?a
      and st' = "\<lparr>stack = [?h], tick = 2\<rparr>"] e3
  have b3: "stack \<lparr>stack = [?h], tick = 2\<rparr> =
              tl (stack \<lparr>stack = [Concept ''org.acme'' ''Address'' [], ?h], tick = 0\<rparr>)"
    by blast
  from e1 e2 e3 b1 b3 show ?thesis by blast
qed

subsection \<open>C10: leaf resolution on a concrete type\<close>

text \<open>
  Claim C10. \<^verbatim>\<open>getFieldValue\<close> tests \<^verbatim>\<open>classDeclaration.isAbstract\<close>, the method and
  not its result, which holds for every class declaration; so
  \<^verbatim>\<open>findExtendingLeafType\<close> runs for every field whose type is a class. On a
  declaration that is not abstract it returns that declaration, and the field is
  generated from the declaration the schema gave: a concept or a resource of that very
  type is made by the factory, pushed and visited.
\<close>

theorem concrete_leaf_identity:
  assumes "\<not> isPrimitiveType (getFullyQualifiedTypeName field)"
    and "getType (modelManager P) (getFullyQualifiedTypeName field) = Inr (ClassDecl c)"
    and "\<not> isAbstract c"
  shows "(\<forall>d. isAbstractMethodTruthy d) \<and>
         findExtendingLeafType (modelManager P) c = Inr (Some c) \<and>
         getFieldValue fuel P field st =
           (if isConcept c then
              (case newConcept (factory P) (getNamespace c) (getName c) of
                 Inl e \<Rightarrow> Throw e
               | Inr concept \<Rightarrow>
                   (case fuel of
                      0 \<Rightarrow> OutOfFuel
                    | Suc fuel' \<Rightarrow> visitClassDeclaration fuel' P c (push concept st)))
            else
              (case newResource (factory P) (getNamespace c) (getName c)
                      (randomId (getIdentifierFieldName c) (mathRandom P (tick st))) of
                 Inl e \<Rightarrow> Throw e
               | Inr resource \<Rightarrow>
                   (case fuel of
                      0 \<Rightarrow> OutOfFuel
                    | Suc fuel' \<Rightarrow> visitClassDeclaration fuel' P c (push resource (draw st)))))"
  using assms
  by (simp add: isAbstractMethodTruthy_def findExtendingLeafType_concrete getFieldValue.simps
      Let_def)

theorem concrete_leaf_identity_witness:
  "\<not> isPrimitiveType ''org.acme.Address'' \<and>
   getType (modelManager acmeParameters) ''org.acme.Address'' = Inr (ClassDecl acmeAddress) \<and>
   \<not> isAbstract acmeAddress \<and>
   findExtendingLeafType (modelManager acmeParameters) acmeAddress = Inr (Some acmeAddress) \<and>
   getFieldValue 1 acmeParameters (Field ''home'' ''org.acme.Address'' False)
       \<lparr>stack = [], tick = 0\<rparr> =
     visitClassDeclaration 0 acmeParameters acmeAddress
       \<lparr>stack = [Concept ''org.acme'' ''Address'' []], tick = 0\<rparr>"
proof -
  have h1: "\<not> isPrimitiveType (getFullyQualifiedTypeName (Field ''home'' ''org.acme.Address'' False))"
    by (simp add: isPrimitiveType_def)
  have h2: "getType (modelManager acmeParameters)
              (getFullyQualifiedTypeName (Field ''home'' ''org.acme.Address'' False)) =
            Inr (ClassDecl acmeAddress)"
    by (simp add: acme_eval)
  have h3: "\<not> isAbstract acmeAddress"
    by (simp add: acme_eval)
  have c: "isConcept acmeAddress"
    "newConcept (factory acmeParameters) (getNamespace acmeAddress) (getName acmeAddress) =
       Inr (Concept ''org.acme'' ''Address'' [])"
    by (simp_all add: acme_eval)
  from concrete_leaf_identity [OF h1 h2 h3, of 1 "\<lparr>stack = [], tick = 0\<rparr>"] h1 h2 h3 c
  show ?thesis by (simp add: push_def)
qed

end
